theory Spec2Isabelle
  imports Complex_Main
begin

section \<open>Vectors and matrices\<close>

text \<open>
  The source computes with the vectors and matrices of the \<^verbatim>\<open>mathutils\<close> library.
  Floating-point numbers are modelled by the reals: comparisons are then exact, and
  sums and products are the ideal ones.
\<close>

datatype vec = Vec (vx: real) (vy: real) (vz: real)

definition vadd :: "vec \<Rightarrow> vec \<Rightarrow> vec" where
  "vadd a b = Vec (vx a + vx b) (vy a + vy b) (vz a + vz b)"

definition vsub :: "vec \<Rightarrow> vec \<Rightarrow> vec" where
  "vsub a b = Vec (vx a - vx b) (vy a - vy b) (vz a - vz b)"

definition vneg :: "vec \<Rightarrow> vec" where
  "vneg a = Vec (- vx a) (- vy a) (- vz a)"

definition smul :: "real \<Rightarrow> vec \<Rightarrow> vec" where
  "smul c a = Vec (c * vx a) (c * vy a) (c * vz a)"

definition cross :: "vec \<Rightarrow> vec \<Rightarrow> vec" where
  "cross a b = Vec (vy a * vz b - vz a * vy b) (vz a * vx b - vx a * vz b) (vx a * vy b - vy a * vx b)"

definition vlength :: "vec \<Rightarrow> real" where
  "vlength a = sqrt (vx a * vx a + vy a * vy a + vz a * vz a)"

text \<open>\<^verbatim>\<open>Vector.normalize()\<close> leaves the zero vector as it is.\<close>

definition normalize :: "vec \<Rightarrow> vec" where
  "normalize a = (if vlength a = 0 then a else smul (1 / vlength a) a)"

datatype vec4 = Vec4 real real real real

datatype mat4 = Mat4 (row0: vec4) (row1: vec4) (row2: vec4) (row3: vec4)

fun dot4 :: "vec4 \<Rightarrow> vec4 \<Rightarrow> real" where
  "dot4 (Vec4 a b c d) (Vec4 x y z w) = a * x + b * y + c * z + d * w"

fun col0 :: "mat4 \<Rightarrow> vec4" where
  "col0 (Mat4 (Vec4 a _ _ _) (Vec4 b _ _ _) (Vec4 c _ _ _) (Vec4 d _ _ _)) = Vec4 a b c d"

fun col1 :: "mat4 \<Rightarrow> vec4" where
  "col1 (Mat4 (Vec4 _ a _ _) (Vec4 _ b _ _) (Vec4 _ c _ _) (Vec4 _ d _ _)) = Vec4 a b c d"

fun col2 :: "mat4 \<Rightarrow> vec4" where
  "col2 (Mat4 (Vec4 _ _ a _) (Vec4 _ _ b _) (Vec4 _ _ c _) (Vec4 _ _ d _)) = Vec4 a b c d"

fun col3 :: "mat4 \<Rightarrow> vec4" where
  "col3 (Mat4 (Vec4 _ _ _ a) (Vec4 _ _ _ b) (Vec4 _ _ _ c) (Vec4 _ _ _ d)) = Vec4 a b c d"

definition row_times :: "vec4 \<Rightarrow> mat4 \<Rightarrow> vec4" where
  "row_times r B = Vec4 (dot4 r (col0 B)) (dot4 r (col1 B)) (dot4 r (col2 B)) (dot4 r (col3 B))"

text \<open>The product \<^verbatim>\<open>A * B\<close> of two 4x4 matrices.\<close>

definition mat_mul :: "mat4 \<Rightarrow> mat4 \<Rightarrow> mat4" where
  "mat_mul A B = Mat4 (row_times (row0 A) B) (row_times (row1 A) B) (row_times (row2 A) B) (row_times (row3 A) B)"

text \<open>
  The product \<^verbatim>\<open>M * v\<close> of a 4x4 matrix and a 3D vector: the vector is extended by
  the fourth component 1, and the first three components of the product are returned.
\<close>

definition mat_mul_vec :: "mat4 \<Rightarrow> vec \<Rightarrow> vec" where
  "mat_mul_vec M v = (let v4 = Vec4 (vx v) (vy v) (vz v) 1
     in Vec (dot4 (row0 M) v4) (dot4 (row1 M) v4) (dot4 (row2 M) v4))"

text \<open>\<^verbatim>\<open>mathutils.Matrix.Translation(v)\<close>.\<close>

definition Translation :: "vec \<Rightarrow> mat4" where
  "Translation v = Mat4 (Vec4 1 0 0 (vx v)) (Vec4 0 1 0 (vy v)) (Vec4 0 0 1 (vz v)) (Vec4 0 0 0 1)"

datatype mat3 = Mat3 vec vec vec

text \<open>A 3x3 matrix resized to 4x4: no translation, last row and column of the identity.\<close>

fun to_4x4 :: "mat3 \<Rightarrow> mat4" where
  "to_4x4 (Mat3 a b c) = Mat4 (Vec4 (vx a) (vy a) (vz a) 0) (Vec4 (vx b) (vy b) (vz b) 0)
     (Vec4 (vx c) (vy c) (vz c) 0) (Vec4 0 0 0 1)"

definition zAxis :: vec where
  "zAxis = Vec 0 0 1"

section \<open>The mesh kernel\<close>

text \<open>
  The mesh lives in the \<^verbatim>\<open>bmesh\<close> library. Its elements (vertices, edges, loops and
  faces) are objects compared by identity; here each is a natural number, and a mesh is
  the store of their attributes, named as the source reads them: \<^verbatim>\<open>loop.vert\<close>,
  \<^verbatim>\<open>loop.edge\<close>, \<^verbatim>\<open>loop.face\<close>, \<^verbatim>\<open>loop.link_loop_next\<close>, \<^verbatim>\<open>loop.link_loops\<close>,
  \<^verbatim>\<open>edge.verts\<close>, \<^verbatim>\<open>edge.link_loops\<close>, \<^verbatim>\<open>edge.link_faces\<close>, \<^verbatim>\<open>face.normal\<close>,
  \<^verbatim>\<open>face.loops\<close>, \<^verbatim>\<open>face.verts\<close>, \<^verbatim>\<open>vert.co\<close>, and the sequences \<^verbatim>\<open>bm.verts\<close>,
  \<^verbatim>\<open>bm.edges\<close> and \<^verbatim>\<open>bm.faces\<close>.
\<close>

record bmesh =
  verts :: "nat list"
  edges :: "nat list"
  faces :: "nat list"
  vert_co :: "nat \<Rightarrow> vec"
  edge_verts :: "nat \<Rightarrow> nat \<times> nat"
  edge_link_loops :: "nat \<Rightarrow> nat list"
  edge_link_faces :: "nat \<Rightarrow> nat list"
  loop_vert :: "nat \<Rightarrow> nat"
  loop_edge :: "nat \<Rightarrow> nat"
  loop_face :: "nat \<Rightarrow> nat"
  link_loop_next :: "nat \<Rightarrow> nat"
  loop_link_loops :: "nat \<Rightarrow> nat list"
  face_normal :: "nat \<Rightarrow> vec"
  face_loops :: "nat \<Rightarrow> nat list"
  face_verts :: "nat \<Rightarrow> nat list"

text \<open>The exceptions the modelled code can raise.\<close>

datatype error = IndexError | UnboundLocalError | AttributeError | ValueError

text \<open>An element of the list \<^verbatim>\<open>geom["geom"]\<close> an extrusion returns.\<close>

datatype geom_elem = BMVert nat | BMEdge nat | BMFace nat

text \<open>
  The operations of the mesh kernel are not part of the program: they are parameters of
  the model. \<^verbatim>\<open>bm.faces.new\<close> raises \<^verbatim>\<open>ValueError\<close> when it refuses the vertices.
\<close>

record kernel =
  reverse_faces :: "bmesh \<Rightarrow> nat list \<Rightarrow> bmesh"
  extrude_face_region :: "bmesh \<Rightarrow> nat list \<Rightarrow> bmesh \<times> geom_elem list"
  translate_verts :: "bmesh \<Rightarrow> nat list \<Rightarrow> vec \<Rightarrow> bmesh"
  verts_new :: "bmesh \<Rightarrow> vec \<Rightarrow> bmesh \<times> nat"
  faces_new :: "bmesh \<Rightarrow> nat list \<Rightarrow> error + bmesh \<times> nat"

text \<open>The session \<^verbatim>\<open>pro.context\<close>: the active mesh and the faces pending removal.\<close>

record pro_context =
  bm :: bmesh
  facesForRemoval :: "nat list"

section \<open>Shapes\<close>

datatype axis = X | Y | Z

datatype selector = front | back_sel | left | right | top_sel | bottom | side | all_sel

datatype shape_class = Shape2d_class | Rectangle_class

text \<open>
  A \<^verbatim>\<open>Shape2d\<close> object (a \<^verbatim>\<open>Rectangle\<close> is one of class \<^verbatim>\<open>Rectangle_class\<close>).
  \<^verbatim>\<open>origin\<close> is the wrapped vector \<^verbatim>\<open>firstLoop.vert.co\<close>: it is kept as the vertex
  whose coordinates it reads.
\<close>

record shape2d =
  cls :: shape_class
  face :: nat
  firstLoop :: nat
  origin :: nat
  matrix :: "mat4 option"

record shape3d =
  shapes :: "shape2d list"
  firstLoop3d :: nat
  origin3d :: nat
  rotationMatrix :: "mat4 option"

text \<open>\<^verbatim>\<open>Shape2d.__init__\<close>, \<^verbatim>\<open>Rectangle.__init__\<close> and \<^verbatim>\<open>Shape3d.__init__\<close>.\<close>

definition Shape2d :: "bmesh \<Rightarrow> nat \<Rightarrow> shape2d" where
  "Shape2d m l = \<lparr>cls = Shape2d_class, face = loop_face m l, firstLoop = l,
     origin = loop_vert m l, matrix = None\<rparr>"

definition Rectangle :: "bmesh \<Rightarrow> nat \<Rightarrow> shape2d" where
  "Rectangle m l = (Shape2d m l)\<lparr>cls := Rectangle_class\<rparr>"

definition Shape3d :: "bmesh \<Rightarrow> shape2d list \<Rightarrow> nat \<Rightarrow> shape3d" where
  "Shape3d m ss l = \<lparr>shapes = ss, firstLoop3d = l, origin3d = loop_vert m l,
     rotationMatrix = None\<rparr>"

text \<open>
  Modelled from the spec: \<^verbatim>\<open>utils.getEndVertex\<close> is missing from the sources. The
  spec's \<^verbatim>\<open>endVertex(ref)\<close> of a directed boundary reference (origin vertex and
  direction to the next vertex) is the vertex the next boundary reference starts at.
\<close>

definition getEndVertex :: "bmesh \<Rightarrow> nat \<Rightarrow> nat" where
  "getEndVertex m l = loop_vert m (link_loop_next m l)"

text \<open>
  Modelled from the spec: \<^verbatim>\<open>utils.rotation_zNormal_xHorizontal\<close> is missing from the
  sources. The spec fixes it as the inverse rotation (world to local orientation, no
  translation) derived from a boundary reference and a normal. Its 3x3 rotation
  \<open>rot\<close> is a parameter; the result is that rotation as a 4x4 matrix, the size
  \<^verbatim>\<open>getMatrix\<close> multiplies with a translation matrix.
\<close>

definition rotation_zNormal_xHorizontal ::
  "(bmesh \<Rightarrow> nat \<Rightarrow> vec \<Rightarrow> mat3) \<Rightarrow> bmesh \<Rightarrow> nat \<Rightarrow> vec \<Rightarrow> mat4" where
  "rotation_zNormal_xHorizontal rot m l n = to_4x4 (rot m l n)"

section \<open>Classification of the faces of a 3D shape\<close>

definition horizontalFaceThreshold :: real where
  "horizontalFaceThreshold = 0.70711"

text \<open>\<^verbatim>\<open>Shape3d.getRotationMatrix\<close>: the matrix, and the shape with the matrix kept.\<close>

definition getRotationMatrix ::
  "(bmesh \<Rightarrow> nat \<Rightarrow> vec \<Rightarrow> mat3) \<Rightarrow> bmesh \<Rightarrow> shape3d \<Rightarrow> mat4 \<times> shape3d" where
  "getRotationMatrix rot m self =
     (case rotationMatrix self of
        None \<Rightarrow>
          (let r = rotation_zNormal_xHorizontal rot m (firstLoop3d self) zAxis
           in (r, self\<lparr>rotationMatrix := Some r\<rparr>))
      | Some r \<Rightarrow> (r, self))"

text \<open>
  Lines 197 to 206 of \<^verbatim>\<open>Shape3d.comp\<close>: the tentative selector of a face and
  \<^verbatim>\<open>isVertical\<close>, from the normal in the coordinate system of the 3D shape.
\<close>

definition classify :: "vec \<Rightarrow> selector \<times> bool" where
  "classify normal =
     (if \<bar>vz normal\<bar> > horizontalFaceThreshold
      then (if vz normal > 0 then top_sel else bottom, False)
      else (if \<bar>vx normal\<bar> > \<bar>vy normal\<bar>
            then (if vx normal > 0 then front else back_sel)
            else (if vy normal > 0 then right else left), True))"

text \<open>
  Lines 208 to 214: the selector the face is filed under, \<open>None\<close> when it is left out.
  \<open>parts\<close> is read only through \<^verbatim>\<open>in\<close>; it is the set of the requested selectors.
\<close>

definition resolve :: "selector set \<Rightarrow> selector \<times> bool \<Rightarrow> selector option" where
  "resolve parts t =
     (case t of (shapeType, isVertical) \<Rightarrow>
        if shapeType \<notin> parts
        then (if side \<in> parts \<and> isVertical then Some side
              else if all_sel \<in> parts then Some all_sel
              else None)
        else Some shapeType)"

text \<open>
  Lines 216 to 219: the dictionary \<^verbatim>\<open>result\<close> after the face is appended. Every
  selector is a true value of Python.
\<close>

definition file_shape ::
  "selector option \<Rightarrow> shape2d \<Rightarrow> (selector \<rightharpoonup> shape2d list) \<Rightarrow> (selector \<rightharpoonup> shape2d list)" where
  "file_shape shapeType shape result =
     (case shapeType of
        None \<Rightarrow> result
      | Some k \<Rightarrow> result(k \<mapsto> (case result k of None \<Rightarrow> [] | Some b \<Rightarrow> b) @ [shape]))"

text \<open>
  Lines 195 to 214 for one face: the normal in the coordinate system of the 3D shape
  (the rotation matrix \<open>r\<close> times \<^verbatim>\<open>shape.face.normal\<close>), classified and resolved.
\<close>

definition face_selector :: "bmesh \<Rightarrow> mat4 \<Rightarrow> selector set \<Rightarrow> shape2d \<Rightarrow> selector option" where
  "face_selector m r parts shape =
     (let normal = mat_mul_vec r (face_normal m (face shape))
      in resolve parts (classify normal))"

text \<open>The loop of \<^verbatim>\<open>Shape3d.comp\<close> over \<^verbatim>\<open>self.shapes\<close>.\<close>

fun comp_loop ::
  "bmesh \<Rightarrow> mat4 \<Rightarrow> selector set \<Rightarrow> shape2d list \<Rightarrow> (selector \<rightharpoonup> shape2d list)
     \<Rightarrow> (selector \<rightharpoonup> shape2d list)" where
  "comp_loop m r parts [] result = result"
| "comp_loop m r parts (shape # rest) result =
     comp_loop m r parts rest (file_shape (face_selector m r parts shape) shape result)"

text \<open>\<^verbatim>\<open>Shape3d.comp\<close>: the dictionary returned, and the shape with its matrix kept.\<close>

definition comp_shapes ::
  "(bmesh \<Rightarrow> nat \<Rightarrow> vec \<Rightarrow> mat3) \<Rightarrow> bmesh \<Rightarrow> selector set \<Rightarrow> shape3d
     \<Rightarrow> (selector \<rightharpoonup> shape2d list) \<times> shape3d" where
  "comp_shapes rot m parts self =
     (case getRotationMatrix rot m self of
        (r, self') \<Rightarrow> (comp_loop m r parts (shapes self') Map.empty, self'))"

section \<open>The initial shape\<close>

text \<open>\<^verbatim>\<open>getInitialShape\<close>: the shape returned and the mesh as the call leaves it.\<close>

definition getInitialShape :: "kernel \<Rightarrow> bmesh \<Rightarrow> error + shape2d \<times> bmesh" where
  "getInitialShape K m =
     (case faces m of
        [] \<Rightarrow> Inl IndexError
      | f # _ \<Rightarrow>
          (let m' = (if vz (face_normal m f) < 0 then reverse_faces K m [f] else m)
           in case face_loops m' f of
                [] \<Rightarrow> Inl IndexError
              | l # _ \<Rightarrow> Inr (Shape2d m' l, m')))"

section \<open>The frame of a 2D shape\<close>

text \<open>\<^verbatim>\<open>Shape2d.getNormal\<close>.\<close>

definition getNormal :: "bmesh \<Rightarrow> shape2d \<Rightarrow> vec" where
  "getNormal m self =
     (let loop = firstLoop self;
          v1 = vsub (vert_co m (getEndVertex m loop)) (vert_co m (loop_vert m loop));
          loop = link_loop_next m loop;
          v2 = vsub (vert_co m (getEndVertex m loop)) (vert_co m (loop_vert m loop))
      in normalize (cross v1 v2))"

text \<open>\<^verbatim>\<open>Shape2d.getMatrix\<close>: the matrix, and the shape with the matrix kept.\<close>

definition getMatrix ::
  "(bmesh \<Rightarrow> nat \<Rightarrow> vec \<Rightarrow> mat3) \<Rightarrow> bmesh \<Rightarrow> shape2d \<Rightarrow> mat4 \<times> shape2d" where
  "getMatrix rot m self =
     (case matrix self of
        None \<Rightarrow>
          (let translationMatrix = Translation (vneg (vert_co m (origin self)));
               rotationMatrix = rotation_zNormal_xHorizontal rot m (firstLoop self) (getNormal m self);
               r = mat_mul rotationMatrix translationMatrix
           in (r, self\<lparr>matrix := Some r\<rparr>))
      | Some r \<Rightarrow> (r, self))"

section \<open>Extrusion\<close>

text \<open>
  Lines 43 to 45 of \<^verbatim>\<open>Shape2d.extrude\<close>: the variable \<^verbatim>\<open>extrudedFace\<close> after the
  loop over \<^verbatim>\<open>geom["geom"]\<close>, which stops at the first face. The second argument is
  the binding of the variable so far (\<open>None\<close>: not bound).
\<close>

fun for_extrudedFace :: "geom_elem list \<Rightarrow> geom_elem option \<Rightarrow> geom_elem option" where
  "for_extrudedFace [] cur = cur"
| "for_extrudedFace (g # gs) cur =
     (case g of BMFace f \<Rightarrow> Some g | _ \<Rightarrow> for_extrudedFace gs (Some g))"

text \<open>
  Lines 57 to 61: the variables \<^verbatim>\<open>loop\<close> and \<^verbatim>\<open>oppositeLoop\<close> after the loop over the
  loops of the first edge, which stops at the first loop whose opposite edge has the
  extruded face as its first or second face.
\<close>

fun for_side_loop ::
  "bmesh \<Rightarrow> nat \<Rightarrow> nat list \<Rightarrow> (nat \<times> nat) option \<Rightarrow> error + (nat \<times> nat) option" where
  "for_side_loop m extrudedFace [] cur = Inr cur"
| "for_side_loop m extrudedFace (loop # rest) cur =
     (let oppositeLoop = link_loop_next m (link_loop_next m loop);
          oppositeEdgeFaces = edge_link_faces m (loop_edge m oppositeLoop)
      in case oppositeEdgeFaces of
           [] \<Rightarrow> Inl IndexError
         | f0 # fs \<Rightarrow>
             if f0 = extrudedFace then Inr (Some (loop, oppositeLoop))
             else (case fs of
                     [] \<Rightarrow> Inl IndexError
                   | f1 # _ \<Rightarrow>
                       if f1 = extrudedFace then Inr (Some (loop, oppositeLoop))
                       else for_side_loop m extrudedFace rest (Some (loop, oppositeLoop))))"

text \<open>
  Lines 69 to 74: the list \<^verbatim>\<open>shapes\<close> after the walk around the side faces. The walk
  may go on forever; then the value is \<open>None\<close>.
\<close>

partial_function (option) side_ring ::
  "bmesh \<Rightarrow> nat \<Rightarrow> nat \<Rightarrow> shape2d list \<Rightarrow> (error + shape2d list) option" where
  "side_ring m firstL loop ss =
     (let ss' = ss @ [Rectangle m loop]
      in case loop_link_loops m (link_loop_next m loop) of
           [] \<Rightarrow> Some (Inl IndexError)
         | l # _ \<Rightarrow>
             (let loop' = link_loop_next m l
              in if loop' = firstL then Some (Inr ss') else side_ring m firstL loop' ss'))"

text \<open>
  Lines 37 to 49 of \<^verbatim>\<open>Shape2d.extrude\<close>: the mesh after the extrusion and the
  translation of the extruded face, and that face. A vertex has no attribute
  \<^verbatim>\<open>verts\<close> and an edge no attribute \<^verbatim>\<open>normal\<close>.
\<close>

definition extrude_geometry ::
  "kernel \<Rightarrow> real \<Rightarrow> shape2d \<Rightarrow> pro_context \<Rightarrow> error + bmesh \<times> nat" where
  "extrude_geometry K depth self ctx =
     (let originalFace = face self;
          (m1, geom) = extrude_face_region K (bm ctx) [originalFace]
      in case for_extrudedFace geom None of
           None \<Rightarrow> Inl UnboundLocalError
         | Some (BMVert _) \<Rightarrow> Inl AttributeError
         | Some (BMEdge _) \<Rightarrow> Inl AttributeError
         | Some (BMFace extrudedFace) \<Rightarrow>
             Inr (translate_verts K m1 (face_verts m1 extrudedFace)
                    (smul depth (face_normal m1 extrudedFace)), extrudedFace))"

text \<open>
  Lines 51 to 65: the loop found on the first side face, and the loop
  \<^verbatim>\<open>oppositeLoop.link_loops[0]\<close> the second shape wraps.
\<close>

definition first_side_loop :: "bmesh \<Rightarrow> nat \<Rightarrow> shape2d \<Rightarrow> error + nat \<times> nat" where
  "first_side_loop m extrudedFace self =
     (let edge = loop_edge m (firstLoop self);
          loops = edge_link_loops m edge
      in case for_side_loop m extrudedFace loops None of
           Inl e \<Rightarrow> Inl e
         | Inr None \<Rightarrow> Inl UnboundLocalError
         | Inr (Some (loop, oppositeLoop)) \<Rightarrow>
             (case loop_link_loops m oppositeLoop of
                [] \<Rightarrow> Inl IndexError
              | c # _ \<Rightarrow> Inr (loop, c)))"

text \<open>
  \<^verbatim>\<open>Shape2d.extrude\<close>: the 3D shape returned and the session as the call leaves it.
  \<^verbatim>\<open>verticalNormalThreshold\<close> is a constant of \<^verbatim>\<open>utils\<close>, missing from the
  sources: it is a parameter.
\<close>

definition extrude ::
  "kernel \<Rightarrow> real \<Rightarrow> real \<Rightarrow> shape2d \<Rightarrow> pro_context \<Rightarrow> (error + shape3d \<times> pro_context) option" where
  "extrude K verticalNormalThreshold depth self ctx =
     (case extrude_geometry K depth self ctx of
        Inl e \<Rightarrow> Some (Inl e)
      | Inr (m, extrudedFace) \<Rightarrow>
          (case first_side_loop m extrudedFace self of
             Inl e \<Rightarrow> Some (Inl e)
           | Inr (loop, c) \<Rightarrow>
               (let ss = [self, Shape2d m c];
                    firstL = loop
                in case (if vz (face_normal m extrudedFace) > verticalNormalThreshold
                         then side_ring m firstL loop ss
                         else Some (Inr ss)) of
                     None \<Rightarrow> None
                   | Some (Inl e) \<Rightarrow> Some (Inl e)
                   | Some (Inr ss') \<Rightarrow>
                       Some (Inr (Shape3d m ss' (firstLoop self), ctx\<lparr>bm := m\<rparr>)))))"

section \<open>Splitting a rectangle\<close>

text \<open>
  An entry of the list \<^verbatim>\<open>cuts\<close> is a Python list of two items. \<^verbatim>\<open>calculateSplit\<close>
  (missing from the sources, a parameter) puts the cut parameter first; \<^verbatim>\<open>split\<close>
  assigns a shape to that first item. The second item is never read.
\<close>

datatype cut_slot = CutValue real | CutShape shape2d

text \<open>\<^verbatim>\<open>Rectangle.createSplitShape\<close>.\<close>

definition createSplitShape :: "kernel \<Rightarrow> bmesh \<Rightarrow> nat list \<Rightarrow> error + shape2d \<times> bmesh" where
  "createSplitShape K m vs =
     (case faces_new K m vs of
        Inl e \<Rightarrow> Inl e
      | Inr (m', f) \<Rightarrow>
          (case face_loops m' f of
             [] \<Rightarrow> Inl IndexError
           | l # _ \<Rightarrow> Inr (Rectangle m' l, m')))"

text \<open>
  Lines 145 to 156 of \<^verbatim>\<open>Rectangle.split\<close>: the loop over all cuts but the last. It
  returns the entries as it leaves them, \<^verbatim>\<open>prevVert1\<close>, \<^verbatim>\<open>prevVert2\<close> and the mesh.
\<close>

fun split_loop ::
  "kernel \<Rightarrow> axis \<Rightarrow> nat \<Rightarrow> nat \<Rightarrow> vec \<Rightarrow> vec \<Rightarrow> (real \<times> 'r) list \<Rightarrow> nat \<Rightarrow> nat \<Rightarrow> bmesh
     \<Rightarrow> error + (cut_slot \<times> 'r) list \<times> nat \<times> nat \<times> bmesh" where
  "split_loop K direction origin1 origin2 vec1 vec2 [] prevVert1 prevVert2 m =
     Inr ([], prevVert1, prevVert2, m)"
| "split_loop K direction origin1 origin2 vec1 vec2 ((cutValue, rule) # rest) prevVert1 prevVert2 m =
     (let c1 = vadd (vert_co m origin1) (smul cutValue vec1);
          c2 = vadd (vert_co m origin2) (smul cutValue vec2);
          (m1, v1) = verts_new K m c1;
          (m2, v2) = verts_new K m1 c2;
          vs = (if direction = X then [prevVert1, v1, v2, prevVert2]
                else [prevVert2, prevVert1, v1, v2])
      in case createSplitShape K m2 vs of
           Inl e \<Rightarrow> Inl e
         | Inr (shape, m3) \<Rightarrow>
             (case split_loop K direction origin1 origin2 vec1 vec2 rest v1 v2 m3 of
                Inl e \<Rightarrow> Inl e
              | Inr (entries, p1, p2, m4) \<Rightarrow> Inr ((CutShape shape, rule) # entries, p1, p2, m4)))"

text \<open>Lines 121 to 124: the reference loop, and the length handed to \<^verbatim>\<open>calculateSplit\<close>.\<close>

definition reference_loop :: "bmesh \<Rightarrow> axis \<Rightarrow> shape2d \<Rightarrow> nat" where
  "reference_loop m direction self =
     (if direction = X then firstLoop self else link_loop_next m (firstLoop self))"

definition reference_length :: "bmesh \<Rightarrow> axis \<Rightarrow> shape2d \<Rightarrow> real" where
  "reference_length m direction self =
     (let v = edge_verts m (loop_edge m (reference_loop m direction self))
      in vlength (vsub (vert_co m (snd v)) (vert_co m (fst v))))"

text \<open>
  \<^verbatim>\<open>Rectangle.split\<close>: the list returned and the session as the call leaves it.
  The shape for the last section is created before \<^verbatim>\<open>cuts[-1]\<close> is read.
\<close>

definition split ::
  "kernel \<Rightarrow> ('p \<Rightarrow> real \<Rightarrow> (real \<times> 'r) list) \<Rightarrow> axis \<Rightarrow> 'p \<Rightarrow> shape2d \<Rightarrow> pro_context
     \<Rightarrow> error + (cut_slot \<times> 'r) list \<times> pro_context" where
  "split K calculateSplit direction parts self ctx =
     (let m = bm ctx;
          referenceLoop = reference_loop m direction self;
          cuts = calculateSplit parts (reference_length m direction self);
          oppositeLoop = link_loop_next m (link_loop_next m referenceLoop);
          origin1 = loop_vert m referenceLoop;
          origin2 = getEndVertex m oppositeLoop;
          end1 = getEndVertex m referenceLoop;
          end2 = loop_vert m oppositeLoop;
          vec1 = vsub (vert_co m end1) (vert_co m origin1);
          vec2 = vsub (vert_co m end2) (vert_co m origin2)
      in case split_loop K direction origin1 origin2 vec1 vec2 (butlast cuts) origin1 origin2 m of
           Inl e \<Rightarrow> Inl e
         | Inr (entries, prevVert1, prevVert2, m') \<Rightarrow>
             (let vs = (if direction = X then [prevVert1, end1, end2, prevVert2]
                        else [prevVert2, prevVert1, end1, end2])
              in case createSplitShape K m' vs of
                   Inl e \<Rightarrow> Inl e
                 | Inr (shape, m'') \<Rightarrow>
                     (case cuts of
                        [] \<Rightarrow> Inl IndexError
                      | _ # _ \<Rightarrow>
                          Inr (entries @ [(CutShape shape, snd (last cuts))],
                               ctx\<lparr>bm := m'', facesForRemoval := facesForRemoval ctx @ [face self]\<rparr>))))"

subsection \<open>The sections of a split as the specification describes them\<close>

text \<open>
  Steps 3 and 5 of the specification of the split, as a relation on what the kernel
  does. The vertices of a section: \<open>(prevRef, newRef, newOpp, prevOpp)\<close> for the axis
  X, \<open>(prevOpp, prevRef, newRef, newOpp)\<close> for the axis Y. For every cut parameter
  \<open>p\<close> of the list, the kernel creates a vertex on the reference edge and one on the
  opposite edge, at the positions interpolated at \<open>p\<close>, and then a face on the vertices
  of the section, from the boundary of the previous cut to the new one; the section is
  the rectangle on the first loop of that face, kept with the second item of the cut.
  The last four arguments are the sections made, the boundary of the last cut, and the
  mesh as the kernel leaves it.
\<close>

definition spec_section_verts :: "axis \<Rightarrow> nat \<Rightarrow> nat \<Rightarrow> nat \<Rightarrow> nat \<Rightarrow> nat list" where
  "spec_section_verts direction prevRef newRef newOpp prevOpp =
     (if direction = X then [prevRef, newRef, newOpp, prevOpp]
      else [prevOpp, prevRef, newRef, newOpp])"

inductive spec_sections ::
  "kernel \<Rightarrow> axis \<Rightarrow> nat \<Rightarrow> nat \<Rightarrow> vec \<Rightarrow> vec \<Rightarrow> (real \<times> 'r) list \<Rightarrow> nat \<Rightarrow> nat \<Rightarrow> bmesh
     \<Rightarrow> (shape2d \<times> 'r) list \<Rightarrow> nat \<Rightarrow> nat \<Rightarrow> bmesh \<Rightarrow> bool"
  for K :: kernel and direction :: axis and origRef :: nat and origOpp :: nat
    and vecRef :: vec and vecOpp :: vec
where
  no_cut: "spec_sections K direction origRef origOpp vecRef vecOpp [] prevRef prevOpp m
             [] prevRef prevOpp m"
| cut: "verts_new K m (vadd (vert_co m origRef) (smul p vecRef)) = (m1, newRef) \<Longrightarrow>
        verts_new K m1 (vadd (vert_co m origOpp) (smul p vecOpp)) = (m2, newOpp) \<Longrightarrow>
        faces_new K m2 (spec_section_verts direction prevRef newRef newOpp prevOpp) = Inr (m3, f) \<Longrightarrow>
        face_loops m3 f = l # ls \<Longrightarrow>
        spec_sections K direction origRef origOpp vecRef vecOpp rest newRef newOpp m3
          made lastRef lastOpp m4 \<Longrightarrow>
        spec_sections K direction origRef origOpp vecRef vecOpp ((p, rule) # rest) prevRef prevOpp m
          ((Rectangle m3 l, rule) # made) lastRef lastOpp m4"

code_pred (modes: i \<Rightarrow> i \<Rightarrow> i \<Rightarrow> i \<Rightarrow> i \<Rightarrow> i \<Rightarrow> i \<Rightarrow> i \<Rightarrow> i \<Rightarrow> i \<Rightarrow> o \<Rightarrow> o \<Rightarrow> o \<Rightarrow> o \<Rightarrow> bool) spec_sections .

section \<open>Concrete meshes and a kernel\<close>

text \<open>
  The meshes and the kernel the examples below run on. \<open>polygon_mesh cs n\<close> is the
  mesh of one face with the corners \<open>cs\<close> and the normal \<open>n\<close>: vertex, edge and
  loop \<open>i\<close> start at corner \<open>i\<close>. \<open>box_mesh cs n\<close> is the closed box over a
  quadrilateral: face 0 is the base, face 1 the cap with the vertices 4 to 7 (created
  on the base's corners), the faces 2 to 5 are the sides, side \<open>2 + i\<close> over the base
  edge \<open>i\<close> with the loops \<open>8 + 4 * i\<close> (on the base edge) to \<open>11 + 4 * i\<close>; the
  edges 8 to 11 are the upright ones.
\<close>

definition polygon_mesh :: "vec list \<Rightarrow> vec \<Rightarrow> bmesh" where
  "polygon_mesh cs n =
     (let k = length cs
      in \<lparr>verts = [0..<k], edges = [0..<k], faces = [0],
          vert_co = (\<lambda>v. cs ! v),
          edge_verts = (\<lambda>e. (e, Suc e mod k)),
          edge_link_loops = (\<lambda>e. [e]),
          edge_link_faces = (\<lambda>e. [0]),
          loop_vert = (\<lambda>l. l),
          loop_edge = (\<lambda>l. l),
          loop_face = (\<lambda>l. 0),
          link_loop_next = (\<lambda>l. Suc l mod k),
          loop_link_loops = (\<lambda>l. []),
          face_normal = (\<lambda>f. n),
          face_loops = (\<lambda>f. [0..<k]),
          face_verts = (\<lambda>f. [0..<k])\<rparr>)"

definition box_mesh :: "vec list \<Rightarrow> vec \<Rightarrow> bmesh" where
  "box_mesh cs n =
     \<lparr>verts = [0, 1, 2, 3, 4, 5, 6, 7],
      edges = [0, 1, 2, 3, 4, 5, 6, 7, 8, 9, 10, 11],
      faces = [0, 1, 2, 3, 4, 5],
      vert_co = (\<lambda>v. (cs @ cs) ! v),
      edge_verts = (\<lambda>e. [(0, 1), (1, 2), (2, 3), (3, 0), (4, 5), (5, 6), (6, 7), (7, 4),
                          (0, 4), (1, 5), (2, 6), (3, 7)] ! e),
      edge_link_loops = (\<lambda>e. [[0, 8], [1, 12], [2, 16], [3, 20], [4, 10], [5, 14], [6, 18],
                               [7, 22], [11, 21], [9, 15], [13, 19], [17, 23]] ! e),
      edge_link_faces = (\<lambda>e. [[0, 2], [0, 3], [0, 4], [0, 5], [1, 2], [1, 3], [1, 4], [1, 5],
                               [2, 5], [2, 3], [3, 4], [4, 5]] ! e),
      loop_vert = (\<lambda>l. [0, 1, 2, 3, 4, 5, 6, 7, 0, 1, 5, 4, 1, 2, 6, 5, 2, 3, 7, 6,
                         3, 0, 4, 7] ! l),
      loop_edge = (\<lambda>l. [0, 1, 2, 3, 4, 5, 6, 7, 0, 9, 4, 8, 1, 10, 5, 9, 2, 11, 6, 10,
                         3, 8, 7, 11] ! l),
      loop_face = (\<lambda>l. l div 4),
      link_loop_next = (\<lambda>l. 4 * (l div 4) + Suc l mod 4),
      loop_link_loops = (\<lambda>l. [[8], [12], [16], [20], [10], [14], [18], [22],
                               [0], [15], [4], [21], [1], [19], [5], [9],
                               [2], [23], [6], [13], [3], [11], [7], [17]] ! l),
      face_normal = (\<lambda>f. if f < 2 then n
                          else cross (vsub (cs ! (Suc (f - 2) mod 4)) (cs ! (f - 2))) n),
      face_loops = (\<lambda>f. [4 * f, 4 * f + 1, 4 * f + 2, 4 * f + 3]),
      face_verts = (\<lambda>f. [[0, 1, 2, 3], [4, 5, 6, 7], [0, 1, 5, 4], [1, 2, 6, 5],
                          [2, 3, 7, 6], [3, 0, 4, 7]] ! f)\<rparr>"


text \<open>
  A kernel: \<open>simple_faces_new\<close> refuses fewer than three vertices, a vertex used twice
  and a face that exists, and else adds the face with its loops, new edges where none
  joins two corners, and a zero normal; \<open>simple_reverse\<close> turns the winding and the
  normal of the faces; \<open>simple_translate\<close> moves vertices; the extrusion of the one
  quadrilateral of a mesh gives the box over it.
\<close>

definition find_edge :: "bmesh \<Rightarrow> nat \<Rightarrow> nat \<Rightarrow> nat option" where
  "find_edge m a b = find (\<lambda>e. edge_verts m e = (a, b) \<or> edge_verts m e = (b, a)) (edges m)"

definition with_edge :: "bmesh \<Rightarrow> nat \<Rightarrow> nat \<Rightarrow> bmesh \<times> nat" where
  "with_edge m a b =
     (case find_edge m a b of
        Some e \<Rightarrow> (m, e)
      | None \<Rightarrow>
          (let e = length (edges m)
           in (m\<lparr>edges := edges m @ [e],
                 edge_verts := (edge_verts m)(e := (a, b)),
                 edge_link_loops := (edge_link_loops m)(e := []),
                 edge_link_faces := (edge_link_faces m)(e := [])\<rparr>, e)))"

definition attach_loop :: "nat \<Rightarrow> nat \<Rightarrow> nat \<Rightarrow> nat \<Rightarrow> nat \<Rightarrow> bmesh \<Rightarrow> bmesh" where
  "attach_loop f l a b nx m =
     (case with_edge m a b of
        (m1, e) \<Rightarrow>
          m1\<lparr>loop_vert := (loop_vert m1)(l := a),
             loop_edge := (loop_edge m1)(l := e),
             loop_face := (loop_face m1)(l := f),
             link_loop_next := (link_loop_next m1)(l := nx),
             edge_link_loops := (edge_link_loops m1)(e := edge_link_loops m1 e @ [l]),
             edge_link_faces := (edge_link_faces m1)(e := edge_link_faces m1 e @ [f])\<rparr>)"

fun attach_loops :: "nat \<Rightarrow> nat \<Rightarrow> nat \<Rightarrow> nat \<Rightarrow> nat list \<Rightarrow> bmesh \<Rightarrow> bmesh" where
  "attach_loops f base v0 i [] m = m"
| "attach_loops f base v0 i [a] m = attach_loop f (base + i) a v0 base m"
| "attach_loops f base v0 i (a # b # vs) m =
     attach_loops f base v0 (Suc i) (b # vs) (attach_loop f (base + i) a b (base + Suc i) m)"

definition n_loops :: "bmesh \<Rightarrow> nat" where
  "n_loops m = sum_list (map (\<lambda>f. length (face_loops m f)) (faces m))"

definition simple_faces_new :: "bmesh \<Rightarrow> nat list \<Rightarrow> error + bmesh \<times> nat" where
  "simple_faces_new m vs =
     (if length vs < 3 \<or> \<not> distinct vs
         \<or> list_ex (\<lambda>f. list_all (\<lambda>v. v \<in> set vs) (face_verts m f)
                           \<and> list_all (\<lambda>v. v \<in> set (face_verts m f)) vs) (faces m)
      then Inl ValueError
      else
        (let f = length (faces m);
             base = n_loops m;
             m1 = attach_loops f base (hd vs) 0 vs m;
             m2 = m1\<lparr>faces := faces m @ [f],
                     face_normal := (face_normal m1)(f := Vec 0 0 0),
                     face_loops := (face_loops m1)(f := map (\<lambda>i. base + i) [0..<length vs]),
                     face_verts := (face_verts m1)(f := vs)\<rparr>
         in Inr (m2\<lparr>loop_link_loops :=
                      (\<lambda>l. filter (\<lambda>l'. l' \<noteq> l) (edge_link_loops m2 (loop_edge m2 l)))\<rparr>, f)))"

definition simple_verts_new :: "bmesh \<Rightarrow> vec \<Rightarrow> bmesh \<times> nat" where
  "simple_verts_new m c =
     (let v = length (verts m)
      in (m\<lparr>verts := verts m @ [v], vert_co := (vert_co m)(v := c)\<rparr>, v))"

definition simple_translate :: "bmesh \<Rightarrow> nat list \<Rightarrow> vec \<Rightarrow> bmesh" where
  "simple_translate m vs d =
     m\<lparr>vert_co := (\<lambda>v. if v \<in> set vs then vadd (vert_co m v) d else vert_co m v)\<rparr>"

definition simple_reverse :: "bmesh \<Rightarrow> nat list \<Rightarrow> bmesh" where
  "simple_reverse m fs =
     (let prev = (\<lambda>l. case find (\<lambda>l'. link_loop_next m l' = l) (face_loops m (loop_face m l)) of
                         None \<Rightarrow> l | Some l' \<Rightarrow> l')
      in m\<lparr>face_normal := (\<lambda>f. if f \<in> set fs then vneg (face_normal m f) else face_normal m f),
           link_loop_next := (\<lambda>l. if loop_face m l \<in> set fs then prev l else link_loop_next m l),
           loop_edge := (\<lambda>l. if loop_face m l \<in> set fs then loop_edge m (prev l) else loop_edge m l),
           face_loops := (\<lambda>f. if f \<in> set fs
                               then (case face_loops m f of [] \<Rightarrow> [] | l # ls \<Rightarrow> l # rev ls)
                               else face_loops m f),
           face_verts := (\<lambda>f. if f \<in> set fs
                               then (case face_verts m f of [] \<Rightarrow> [] | v # vs \<Rightarrow> v # rev vs)
                               else face_verts m f)\<rparr>)"

definition simple_kernel :: kernel where
  "simple_kernel =
     \<lparr>reverse_faces = simple_reverse,
      extrude_face_region =
        (\<lambda>m fs. (box_mesh (map (vert_co m) [0, 1, 2, 3]) (face_normal m (hd fs)),
                  [BMVert 4, BMVert 5, BMVert 6, BMVert 7, BMEdge 4, BMEdge 5, BMEdge 6,
                   BMEdge 7, BMFace 1, BMFace 2, BMFace 3, BMFace 4, BMFace 5])),
      translate_verts = simple_translate,
      verts_new = simple_verts_new,
      faces_new = simple_faces_new\<rparr>"

text \<open>The identity as the rotation of every frame; two floors and a wall to extrude.\<close>

definition identity_rot :: "bmesh \<Rightarrow> nat \<Rightarrow> vec \<Rightarrow> mat3" where
  "identity_rot m l n = Mat3 (Vec 1 0 0) (Vec 0 1 0) (Vec 0 0 1)"

definition floor_up :: bmesh where
  "floor_up = polygon_mesh [Vec 0 0 0, Vec 1 0 0, Vec 1 1 0, Vec 0 1 0] (Vec 0 0 1)"

definition floor_down :: bmesh where
  "floor_down = polygon_mesh [Vec 0 0 0, Vec 0 1 0, Vec 1 1 0, Vec 1 0 0] (Vec 0 0 (- 1))"

definition wall :: bmesh where
  "wall = polygon_mesh [Vec 0 0 0, Vec 1 0 0, Vec 1 0 1, Vec 0 0 1] (Vec 0 (- 1) 0)"

definition session :: "bmesh \<Rightarrow> pro_context" where
  "session m = \<lparr>bm = m, facesForRemoval = []\<rparr>"

text \<open>The box over the floor facing up, and the 3D shape of its six faces.\<close>

definition box_up :: bmesh where
  "box_up = box_mesh [Vec 0 0 0, Vec 1 0 0, Vec 1 1 0, Vec 0 1 0] (Vec 0 0 1)"

definition box_shape :: shape3d where
  "box_shape = Shape3d box_up [Shape2d box_up 0, Shape2d box_up 4, Rectangle box_up 8,
     Rectangle box_up 12, Rectangle box_up 16, Rectangle box_up 20] 0"

text \<open>
  The mesh the kernel leaves after the extrusion of the quadrilateral of \<open>m\<close>: the box
  over it, the cap moved by \<open>depth\<close> along the normal.
\<close>

definition extruded_box :: "bmesh \<Rightarrow> real \<Rightarrow> bmesh" where
  "extruded_box m depth =
     simple_translate (box_mesh (map (vert_co m) [0, 1, 2, 3]) (face_normal m 0)) [4, 5, 6, 7]
       (smul depth (face_normal m 0))"

text \<open>
  A rectangle of 10 by 5, a pentagon and a triangle, and two answers of
  \<^verbatim>\<open>calculateSplit\<close>: the cut parameters with the numbers 0, 1 for the rules.
\<close>

definition rectangle_10x5 :: bmesh where
  "rectangle_10x5 = polygon_mesh [Vec 0 0 0, Vec 10 0 0, Vec 10 5 0, Vec 0 5 0] (Vec 0 0 1)"

definition pentagon :: bmesh where
  "pentagon = polygon_mesh [Vec 0 0 0, Vec 2 0 0, Vec 3 2 0, Vec 1 3 0, Vec (- 1) 2 0] (Vec 0 0 1)"

definition triangle :: bmesh where
  "triangle = polygon_mesh [Vec 0 0 0, Vec 1 0 0, Vec 0 1 0] (Vec 0 0 1)"

definition one_cut :: "unit \<Rightarrow> real \<Rightarrow> (real \<times> nat) list" where
  "one_cut parts len = [(1, 0)]"

definition two_cuts :: "unit \<Rightarrow> real \<Rightarrow> (real \<times> nat) list" where
  "two_cuts parts len = [(1 / 4, 0), (1, 1)]"

section \<open>Properties of the classification\<close>

text \<open>
  The bucket of a selector after the loop of \<^verbatim>\<open>comp\<close>: what it held before, followed by
  the faces resolved to the selector, in the order of the list.
\<close>

lemma comp_loop_bucket:
  "comp_loop m r parts ss result k =
     (let new = filter (\<lambda>f. face_selector m r parts f = Some k) ss
      in case result k of
           None \<Rightarrow> (if new = [] then None else Some new)
         | Some b \<Rightarrow> Some (b @ new))"
proof (induction ss arbitrary: result)
  case Nil
  then show ?case by (simp split: option.splits)
next
  case (Cons f fs)
  show ?case
    by (cases "face_selector m r parts f")
       (auto simp: Cons.IH file_shape_def Let_def split: option.splits)
qed

lemma resolve_in_parts: "resolve parts t = Some k \<Longrightarrow> k \<in> parts"
  by (auto simp: resolve_def split: prod.splits if_splits)

lemma face_selector_all_only: "face_selector m r {all_sel} f = Some all_sel"
  by (auto simp: face_selector_def resolve_def classify_def Let_def split: prod.splits if_splits)

lemma getRotationMatrix_shapes: "shapes (snd (getRotationMatrix rot m s)) = shapes s"
  by (simp add: getRotationMatrix_def Let_def split: option.splits)

lemma comp_shapes_bucket:
  "fst (comp_shapes rot m parts self) k =
     (let new = filter (\<lambda>f. face_selector m (fst (getRotationMatrix rot m self)) parts f = Some k)
                  (shapes self)
      in if new = [] then None else Some new)"
  using getRotationMatrix_shapes[of rot m self]
  by (cases "getRotationMatrix rot m self") (simp add: comp_shapes_def comp_loop_bucket)

text \<open>
  The resolution of \<^verbatim>\<open>comp\<close> written out on the tentative selector, and the matrix
  \<^verbatim>\<open>getRotationMatrix\<close> hands to the loop.
\<close>

lemma face_selector_unfold:
  "face_selector m r parts f =
     (case classify (mat_mul_vec r (face_normal m (face f))) of
        (shapeType, isVertical) \<Rightarrow>
          if shapeType \<in> parts then Some shapeType
          else if isVertical \<and> side \<in> parts then Some side
          else if all_sel \<in> parts then Some all_sel
          else None)"
  by (simp add: face_selector_def resolve_def Let_def split: prod.splits)

lemma getRotationMatrix_fst:
  "fst (getRotationMatrix rot m self) =
     (case rotationMatrix self of
        None \<Rightarrow> rotation_zNormal_xHorizontal rot m (firstLoop3d self) zAxis
      | Some r \<Rightarrow> r)"
  by (simp add: getRotationMatrix_def Let_def split: option.splits)

text \<open>
  Claim C7. The dictionary \<^verbatim>\<open>comp\<close> returns, key by key: the bucket of a selector
  \<open>k\<close> is the list of the constituent shapes, in their order and each once, whose
  face is filed under \<open>k\<close>, and \<open>k\<close> is no key when there is none. A face is filed
  under its tentative selector when that is requested; if not, under \<open>side\<close> when the
  face is vertical and \<open>side\<close> is requested; else under \<open>all\<close> when \<open>all\<close> is
  requested; and else it is left out, with no error. When only \<open>all\<close> is requested the
  dictionary has the one key \<open>all\<close>, whose bucket is the list of the constituent shapes
  itself (and it is empty when there is none). Every key of the result is a requested
  selector, and its bucket is not empty.
\<close>

theorem comp_buckets:
  "fst (comp_shapes rot m parts self) k =
     (let r = (case rotationMatrix self of
                 None \<Rightarrow> rotation_zNormal_xHorizontal rot m (firstLoop3d self) zAxis
               | Some r \<Rightarrow> r);
          selector_of = (\<lambda>f. case classify (mat_mul_vec r (face_normal m (face f))) of
                     (shapeType, isVertical) \<Rightarrow>
                       if shapeType \<in> parts then Some shapeType
                       else if isVertical \<and> side \<in> parts then Some side
                       else if all_sel \<in> parts then Some all_sel
                       else None);
          bucket = filter (\<lambda>f. selector_of f = Some k) (shapes self)
      in if bucket = [] then None else Some bucket)
   \<and> fst (comp_shapes rot m {all_sel} self) =
       (if shapes self = [] then Map.empty else [all_sel \<mapsto> shapes self])
   \<and> (\<forall>b. fst (comp_shapes rot m parts self) k = Some b \<longrightarrow> k \<in> parts \<and> b \<noteq> [])"
proof (intro conjI allI impI)
  show "fst (comp_shapes rot m parts self) k =
     (let r = (case rotationMatrix self of
                 None \<Rightarrow> rotation_zNormal_xHorizontal rot m (firstLoop3d self) zAxis
               | Some r \<Rightarrow> r);
          selector_of = (\<lambda>f. case classify (mat_mul_vec r (face_normal m (face f))) of
                     (shapeType, isVertical) \<Rightarrow>
                       if shapeType \<in> parts then Some shapeType
                       else if isVertical \<and> side \<in> parts then Some side
                       else if all_sel \<in> parts then Some all_sel
                       else None);
          bucket = filter (\<lambda>f. selector_of f = Some k) (shapes self)
      in if bucket = [] then None else Some bucket)"
    unfolding comp_shapes_bucket getRotationMatrix_fst face_selector_unfold Let_def
    by (rule refl)
next
  show "fst (comp_shapes rot m {all_sel} self) =
       (if shapes self = [] then Map.empty else [all_sel \<mapsto> shapes self])"
  proof (rule ext)
    fix k
    show "fst (comp_shapes rot m {all_sel} self) k =
       (if shapes self = [] then Map.empty else [all_sel \<mapsto> shapes self]) k"
      by (cases "k = all_sel") (auto simp: comp_shapes_bucket face_selector_all_only Let_def)
  qed
next
  fix b
  assume h: "fst (comp_shapes rot m parts self) k = Some b"
  let ?new = "filter (\<lambda>f. face_selector m (fst (getRotationMatrix rot m self)) parts f = Some k)
               (shapes self)"
  from h have ne: "?new \<noteq> []" and b: "b = ?new"
    by (auto simp: comp_shapes_bucket Let_def split: if_splits)
  from ne obtain f where "face_selector m (fst (getRotationMatrix rot m self)) parts f = Some k"
    by (auto simp: filter_empty_conv)
  then show "k \<in> parts"
    by (auto simp: face_selector_def Let_def dest: resolve_in_parts)
  from ne b show "b \<noteq> []" by simp
qed

lemmas box_eval = box_up_def box_shape_def box_mesh_def Shape3d_def Shape2d_def Rectangle_def
  rotation_zNormal_xHorizontal_def identity_rot_def
  classify_def mat_mul_vec_def zAxis_def
  horizontalFaceThreshold_def cross_def vsub_def Let_def

text \<open>
  The box classified with \<open>top\<close> and \<open>side\<close> requested: \<open>side\<close> takes the four
  walls, whose tentative selectors are not requested, in the order of the list, \<open>top\<close>
  the base and the cap, and \<open>front\<close> is no key. With \<open>all\<close> alone requested, \<open>all\<close>
  takes every face.
\<close>

theorem comp_buckets_witness:
  "fst (comp_shapes identity_rot box_up {top_sel, side} box_shape) side =
       Some [Rectangle box_up 8, Rectangle box_up 12, Rectangle box_up 16, Rectangle box_up 20]
   \<and> fst (comp_shapes identity_rot box_up {top_sel, side} box_shape) top_sel =
       Some [Shape2d box_up 0, Shape2d box_up 4]
   \<and> fst (comp_shapes identity_rot box_up {top_sel, side} box_shape) front = None
   \<and> fst (comp_shapes identity_rot box_up {all_sel} box_shape) = [all_sel \<mapsto> shapes box_shape]
   \<and> side \<in> {top_sel, side}
   \<and> [Rectangle box_up 8, Rectangle box_up 12, Rectangle box_up 16, Rectangle box_up 20] \<noteq> []"
proof -
  have ne: "shapes box_shape \<noteq> []"
    by (simp add: box_shape_def Shape3d_def)
  note b = comp_buckets[of identity_rot box_up "{top_sel, side}" box_shape]
  from b[of side, THEN conjunct1]
  have s: "fst (comp_shapes identity_rot box_up {top_sel, side} box_shape) side =
       Some [Rectangle box_up 8, Rectangle box_up 12, Rectangle box_up 16, Rectangle box_up 20]"
    by (simp add: box_eval)
  from b[of top_sel, THEN conjunct1]
  have t: "fst (comp_shapes identity_rot box_up {top_sel, side} box_shape) top_sel =
       Some [Shape2d box_up 0, Shape2d box_up 4]"
    by (simp add: box_eval)
  from b[of front, THEN conjunct1]
  have f: "fst (comp_shapes identity_rot box_up {top_sel, side} box_shape) front = None"
    by (simp add: box_eval)
  from b[of side, THEN conjunct2, THEN conjunct1] ne
  have a: "fst (comp_shapes identity_rot box_up {all_sel} box_shape) =
       [all_sel \<mapsto> shapes box_shape]"
    by simp
  from b[of side, THEN conjunct2, THEN conjunct2, THEN spec, THEN mp, OF s]
  have k: "side \<in> {top_sel, side}
      \<and> [Rectangle box_up 8, Rectangle box_up 12, Rectangle box_up 16, Rectangle box_up 20] \<noteq> []" .
  from s t f a k show ?thesis by (intro conjI) (simp_all only: simp_thms)
qed

text \<open>
  Claim C10. A face whose local normal has \<open>|z|\<close> equal to the threshold 0.70711 is
  vertical (the test for horizontal is strict), and a vertical face with \<open>|x| = |y|\<close>
  is classified by the y axis: \<open>right\<close> when \<open>y > 0\<close>, else \<open>left\<close>.
\<close>

theorem classify_ties:
  "(\<bar>vz n\<bar> = horizontalFaceThreshold \<longrightarrow> snd (classify n))
   \<and> (\<bar>vz n\<bar> \<le> horizontalFaceThreshold \<and> \<bar>vx n\<bar> = \<bar>vy n\<bar> \<longrightarrow>
        classify n = (if vy n > 0 then right else left, True))"
  by (simp add: classify_def)

theorem classify_ties_witness:
  "snd (classify (Vec (1/2) (- (1/2)) 0.70711))
   \<and> classify (Vec (1/2) (- (1/2)) 0.70711) = (left, True)
   \<and> classify (Vec (- (1/2)) (1/2) (- 0.70711)) = (right, True)"
  using classify_ties[of "Vec (1/2) (- (1/2)) 0.70711"] classify_ties[of "Vec (- (1/2)) (1/2) (- 0.70711)"]
  by (simp add: horizontalFaceThreshold_def)

section \<open>Properties of the initial shape\<close>

text \<open>
  Claim C9. When the normal of the first face of the mesh points down, the face is
  reversed before it is wrapped; the shape \<^verbatim>\<open>getInitialShape\<close> returns wraps the first
  loop of that face, whose normal then has a z component that is not negative. The
  kernel's part is a hypothesis: reversing the face negates the z component of its
  normal.
\<close>

theorem getInitialShape_faces_up:
  assumes flip: "\<forall>f fs. faces m = f # fs \<and> vz (face_normal m f) < 0 \<longrightarrow>
                   vz (face_normal (reverse_faces K m [f]) f) = - vz (face_normal m f)"
    and ret: "getInitialShape K m = Inr (s, m')"
  shows "\<exists>f fs l ls. faces m = f # fs
           \<and> m' = (if vz (face_normal m f) < 0 then reverse_faces K m [f] else m)
           \<and> face_loops m' f = l # ls \<and> s = Shape2d m' l
           \<and> 0 \<le> vz (face_normal m' f)"
proof (cases "faces m")
  case Nil
  with ret show ?thesis by (simp add: getInitialShape_def)
next
  case (Cons f fs)
  define m1 where "m1 = (if vz (face_normal m f) < 0 then reverse_faces K m [f] else m)"
  have unf: "getInitialShape K m =
      (case face_loops m1 f of [] \<Rightarrow> Inl IndexError | l # _ \<Rightarrow> Inr (Shape2d m1 l, m1))"
    using Cons unfolding getInitialShape_def m1_def Let_def by simp
  obtain l ls where l: "face_loops m1 f = l # ls"
    using ret unf by (cases "face_loops m1 f") simp_all
  from unf[symmetric] ret have "(case face_loops m1 f of [] \<Rightarrow> Inl IndexError
      | l # _ \<Rightarrow> Inr (Shape2d m1 l, m1)) = (Inr (s, m') :: error + shape2d \<times> bmesh)"
    by (rule trans)
  then have "Inr (Shape2d m1 l, m1) = (Inr (s, m') :: error + shape2d \<times> bmesh)"
    by (simp only: l list.case)
  then have p: "(Shape2d m1 l, m1) = (s, m')"
    by (rule Inr_inject)
  have s: "s = Shape2d m1 l"
    using arg_cong[OF p, of fst] by (simp only: fst_conv)
  have m': "m' = m1"
    using arg_cong[OF p, of snd] by (simp only: snd_conv)
  have "0 \<le> vz (face_normal m1 f)"
  proof (cases "vz (face_normal m f) < 0")
    case True
    with flip Cons have "vz (face_normal (reverse_faces K m [f]) f) = - vz (face_normal m f)"
      by blast
    with True show ?thesis by (simp add: m1_def)
  next
    case False
    then show ?thesis by (simp add: m1_def)
  qed
  with Cons l s m' show ?thesis
    unfolding m1_def by blast
qed

text \<open>The floor facing down: the face is reversed, and its first loop 0 is wrapped.\<close>

theorem getInitialShape_witness:
  "getInitialShape simple_kernel floor_down =
     Inr (Shape2d (simple_reverse floor_down [0]) 0, simple_reverse floor_down [0])
   \<and> vz (face_normal floor_down 0) < 0
   \<and> 0 \<le> vz (face_normal (simple_reverse floor_down [0]) 0)"
proof -
  have n: "vz (face_normal floor_down 0) < 0"
    by (simp add: floor_down_def polygon_mesh_def)
  have fs: "faces floor_down = [0]"
    by (simp add: floor_down_def polygon_mesh_def)
  have fl: "face_loops (simple_reverse floor_down [0]) 0 = [0, 3, 2, 1]"
    by (simp add: floor_down_def polygon_mesh_def simple_reverse_def Let_def upt_rec_numeral)
  have flip: "\<forall>f fs. faces floor_down = f # fs \<and> vz (face_normal floor_down f) < 0 \<longrightarrow>
      vz (face_normal (reverse_faces simple_kernel floor_down [f]) f) = - vz (face_normal floor_down f)"
    by (simp add: simple_kernel_def simple_reverse_def Let_def vneg_def)
  have ret: "getInitialShape simple_kernel floor_down =
     Inr (Shape2d (simple_reverse floor_down [0]) 0, simple_reverse floor_down [0])"
    using n fs fl by (simp add: getInitialShape_def simple_kernel_def Let_def)
  from getInitialShape_faces_up[OF flip ret] fs
  have "0 \<le> vz (face_normal (simple_reverse floor_down [0]) 0)"
    by auto
  with ret n show ?thesis by simp
qed

section \<open>Properties of the frame\<close>

text \<open>The frame maps a point by the translation first and the rotation second.\<close>

lemma frame_of_point:
  "mat_mul_vec (mat_mul (to_4x4 R) (Translation (vneg v))) p = mat_mul_vec (to_4x4 R) (vsub p v)"
  by (cases R; cases v; cases p)
     (simp add: mat_mul_def mat_mul_vec_def row_times_def Translation_def vneg_def vsub_def
        algebra_simps)

lemma rotate_zero: "mat_mul_vec (to_4x4 R) (Vec 0 0 0) = Vec 0 0 0"
  by (cases R) (simp add: mat_mul_vec_def)

text \<open>
  Claim C8. The frame \<^verbatim>\<open>getMatrix\<close> derives is the product of the inverse rotation
  and the inverse translation, in this order; it maps a point by the translation
  first and the rotation second; and it maps the position of the boundary-start
  vertex, the origin of the shape, to (0, 0, 0). The frame is kept in the shape.
\<close>

theorem getMatrix_frame:
  assumes "matrix self = None"
  shows "fst (getMatrix rot m self) =
           mat_mul (rotation_zNormal_xHorizontal rot m (firstLoop self) (getNormal m self))
             (Translation (vneg (vert_co m (origin self))))
         \<and> (\<forall>p. mat_mul_vec (fst (getMatrix rot m self)) p =
                 mat_mul_vec (rotation_zNormal_xHorizontal rot m (firstLoop self) (getNormal m self))
                   (mat_mul_vec (Translation (vneg (vert_co m (origin self)))) p))
         \<and> mat_mul_vec (fst (getMatrix rot m self)) (vert_co m (origin self)) = Vec 0 0 0
         \<and> snd (getMatrix rot m self) = self\<lparr>matrix := Some (fst (getMatrix rot m self))\<rparr>"
proof -
  have tr: "mat_mul_vec (Translation (vneg v)) p = vsub p v" for v p
    by (cases v; cases p) (simp add: mat_mul_vec_def Translation_def vneg_def vsub_def)
  have z: "vsub v v = Vec 0 0 0" for v
    by (simp add: vsub_def)
  from assms show ?thesis
    by (simp add: getMatrix_def Let_def rotation_zNormal_xHorizontal_def frame_of_point tr z
        rotate_zero)
qed

text \<open>
  The wall, wrapped at its loop 2: the origin (1, 0, 1) goes to (0, 0, 0), and with
  the identity as the rotation (3, 5, 8) goes to (2, 5, 7).
\<close>

theorem getMatrix_witness:
  "matrix (Shape2d wall 2) = None
   \<and> vert_co wall (origin (Shape2d wall 2)) = Vec 1 0 1
   \<and> mat_mul_vec (fst (getMatrix identity_rot wall (Shape2d wall 2))) (Vec 1 0 1) = Vec 0 0 0
   \<and> mat_mul_vec (fst (getMatrix identity_rot wall (Shape2d wall 2))) (Vec 3 5 8) = Vec 2 5 7"
proof -
  have a: "matrix (Shape2d wall 2) = None"
    by (simp add: Shape2d_def)
  have o: "vert_co wall (origin (Shape2d wall 2)) = Vec 1 0 1"
    by (simp add: Shape2d_def wall_def polygon_mesh_def)
  have r: "mat_mul_vec (rotation_zNormal_xHorizontal identity_rot wall l n)
            (mat_mul_vec (Translation (vneg (Vec 1 0 1))) (Vec 3 5 8)) = Vec 2 5 7" for l n
    by (simp add: rotation_zNormal_xHorizontal_def identity_rot_def mat_mul_vec_def
        Translation_def vneg_def)
  note f = getMatrix_frame[OF a, of identity_rot wall]
  from f have z: "mat_mul_vec (fst (getMatrix identity_rot wall (Shape2d wall 2)))
      (vert_co wall (origin (Shape2d wall 2))) = Vec 0 0 0"
    by blast
  from f have "mat_mul_vec (fst (getMatrix identity_rot wall (Shape2d wall 2))) (Vec 3 5 8) =
      mat_mul_vec (rotation_zNormal_xHorizontal identity_rot wall (firstLoop (Shape2d wall 2))
          (getNormal wall (Shape2d wall 2)))
        (mat_mul_vec (Translation (vneg (vert_co wall (origin (Shape2d wall 2))))) (Vec 3 5 8))"
    by blast
  with r o have p: "mat_mul_vec (fst (getMatrix identity_rot wall (Shape2d wall 2))) (Vec 3 5 8) =
      Vec 2 5 7"
    by simp
  from a o z p show ?thesis
    by simp
qed

section \<open>Properties of the extrusion\<close>

text \<open>
  Every list the walk around the side faces returns starts with the given shapes and
  the rectangle of the loop it starts at.
\<close>

lemma side_ring_prefix_aux:
  assumes "side_ring m firstL loop ss = Some res"
  shows "\<forall>ss'. res = Inr ss' \<longrightarrow> (\<exists>others. ss' = ss @ Rectangle m loop # others)"
  using assms
proof (induction rule: side_ring.raw_induct[rotated 1, consumes 1])
  case (1 walk m firstL loop ss res)
  show ?case
  proof (cases "loop_link_loops m (link_loop_next m loop)")
    case Nil
    with 1(2) show ?thesis by (auto simp: Let_def)
  next
    case (Cons l ls)
    show ?thesis
    proof (cases "link_loop_next m l = firstL")
      case True
      with 1(2) Cons show ?thesis by (auto simp: Let_def)
    next
      case False
      with 1(2) Cons have "walk m firstL (link_loop_next m l) (ss @ [Rectangle m loop]) = Some res"
        by (simp add: Let_def)
      from 1(1)[OF this] show ?thesis by auto
    qed
  qed
qed

lemma side_ring_prefix:
  assumes "side_ring m firstL loop ss = Some (Inr ss')"
  shows "\<exists>others. ss' = ss @ Rectangle m loop # others"
  using side_ring_prefix_aux[OF assms] by blast

text \<open>
  Along a ring of loops, each leading to the next by
  \<^verbatim>\<open>loop.link_loop_next.link_loops[0].link_loop_next\<close> and the last to the first, the
  walk returns, with one rectangle for each loop of the ring, in the order of the ring.
\<close>

lemma side_ring_along:
  assumes ring: "distinct ring" "ring \<noteq> []"
    and step: "\<forall>i<length ring. \<exists>r rs.
        loop_link_loops m (link_loop_next m (ring ! i)) = r # rs
        \<and> link_loop_next m r = ring ! (Suc i mod length ring)"
    and i: "i < length ring"
  shows "side_ring m (ring ! 0) (ring ! i) ss = Some (Inr (ss @ map (Rectangle m) (drop i ring)))"
  using i
proof (induction "length ring - i" arbitrary: i ss)
  case 0
  then show ?case by simp
next
  case (Suc k)
  from step Suc.prems obtain r rs where
    r: "loop_link_loops m (link_loop_next m (ring ! i)) = r # rs"
    and nx: "link_loop_next m r = ring ! (Suc i mod length ring)"
    by blast
  show ?case
  proof (cases "Suc i = length ring")
    case True
    then have d: "drop i ring = [ring ! i]"
      using Suc.prems by (metis Cons_nth_drop_Suc drop_all le_refl)
    from True nx have "link_loop_next m r = ring ! 0" by simp
    with r d show ?thesis
      by (subst side_ring.simps) (simp add: Let_def)
  next
    case False
    with Suc.prems have lt: "Suc i < length ring" by simp
    then have nx': "link_loop_next m r = ring ! Suc i" using nx by simp
    from ring lt have "ring ! Suc i \<noteq> ring ! 0"
      by (simp add: nth_eq_iff_index_eq)
    moreover from Suc.hyps(2) have "k = length ring - Suc i" by simp
    from Suc.hyps(1)[OF this lt]
    have "side_ring m (ring ! 0) (ring ! Suc i) (ss @ [Rectangle m (ring ! i)]) =
        Some (Inr ((ss @ [Rectangle m (ring ! i)]) @ map (Rectangle m) (drop (Suc i) ring)))" .
    moreover have "drop i ring = ring ! i # drop (Suc i) ring"
      using Suc.prems by (simp add: Cons_nth_drop_Suc)
    ultimately show ?thesis
      using r nx' by (subst side_ring.simps) (simp add: Let_def)
  qed
qed

text \<open>\<^verbatim>\<open>extrude\<close> once the geometry is made and the first side loop is found.\<close>

lemma extrude_unfold:
  assumes "extrude_geometry K depth self ctx = Inr (m, ext)"
    and "first_side_loop m ext self = Inr (loop, c)"
  shows "extrude K thr depth self ctx =
    (case (if vz (face_normal m ext) > thr then side_ring m loop loop [self, Shape2d m c]
           else Some (Inr [self, Shape2d m c])) of
       None \<Rightarrow> None
     | Some (Inl e) \<Rightarrow> Some (Inl e)
     | Some (Inr ss') \<Rightarrow> Some (Inr (Shape3d m ss' (firstLoop self), ctx\<lparr>bm := m\<rparr>)))"
  using assms by (simp add: extrude_def Let_def)

text \<open>
  The walk along a ring of side loops: once the extruded face is made and the first side
  loop \<open>l0\<close> and the loop \<open>c\<close> next to its opposite loop are found, a cap whose
  normal has a z component above the threshold gets the base, a \<^verbatim>\<open>Shape2d\<close> on \<open>c\<close> and
  a rectangle on every loop of the ring, in the order of the ring.
\<close>

lemma extrude_along_ring:
  assumes geometry: "extrude_geometry K depth self ctx = Inr (m, ext)"
    and topology: "first_side_loop m ext self = Inr (l0, c)"
    and cap: "loop_face m c = ext"
    and horizontal: "vz (face_normal m ext) > thr"
    and ring: "ring = l0 # others" "distinct ring"
    and step: "\<forall>i<length ring. \<exists>r rs.
        loop_link_loops m (link_loop_next m (ring ! i)) = r # rs
        \<and> link_loop_next m r = ring ! (Suc i mod length ring)"
    and sides: "length ring = length (face_verts m (face self))"
  shows "\<exists>s ctx'. extrude K thr depth self ctx = Some (Inr (s, ctx'))
           \<and> shapes s = self # Shape2d m c # map (Rectangle m) ring
           \<and> face (shapes s ! 1) = ext
           \<and> length (shapes s) = length (face_verts m (face self)) + 2"
proof -
  from ring have ne: "ring \<noteq> []" and hd: "ring ! 0 = l0" by simp_all
  from ne have "0 < length ring" by simp
  from side_ring_along[OF ring(2) ne step this, of "[self, Shape2d m c]"]
  have w: "side_ring m l0 l0 [self, Shape2d m c] =
      Some (Inr ([self, Shape2d m c] @ map (Rectangle m) ring))"
    by (simp add: hd)
  have "extrude K thr depth self ctx =
      Some (Inr (Shape3d m (self # Shape2d m c # map (Rectangle m) ring) (firstLoop self),
                 ctx\<lparr>bm := m\<rparr>))"
    using horizontal by (simp add: extrude_unfold[OF geometry topology] w)
  moreover have "shapes (Shape3d m (self # Shape2d m c # map (Rectangle m) ring) (firstLoop self)) =
      self # Shape2d m c # map (Rectangle m) ring"
    by (simp add: Shape3d_def)
  moreover have "face (Shape2d m c) = ext"
    using cap by (simp add: Shape2d_def)
  ultimately show ?thesis
    using sides by (intro exI[of _ "Shape3d m (self # Shape2d m c # map (Rectangle m) ring) (firstLoop self)"]
        exI[of _ "ctx\<lparr>bm := m\<rparr>"]) simp
qed

text \<open>
  The two searches of \<^verbatim>\<open>extrude\<close> on what the kernel returns: the first face of the
  list of new elements is the extruded face, and the first loop around the first edge of
  the base whose opposite edge borders the extruded face, that edge having two faces, is
  the first side loop.
\<close>

lemma for_extrudedFace_first:
  assumes "\<forall>f. BMFace f \<notin> set skipped"
  shows "for_extrudedFace (skipped @ BMFace ext # others) cur = Some (BMFace ext)"
  using assms
proof (induction skipped arbitrary: cur)
  case Nil
  then show ?case by simp
next
  case (Cons g gs)
  then show ?case by (cases g) auto
qed

lemma for_side_loop_first:
  assumes before: "\<forall>p\<in>set before. \<exists>f0 f1 fs.
        edge_link_faces m (loop_edge m (link_loop_next m (link_loop_next m p))) = f0 # f1 # fs
        \<and> f0 \<noteq> ext \<and> f1 \<noteq> ext"
    and side: "edge_link_faces m (loop_edge m (link_loop_next m (link_loop_next m s0))) = [f0, f1]"
      "f0 = ext \<or> f1 = ext"
  shows "for_side_loop m ext (before @ s0 # after) cur =
    Inr (Some (s0, link_loop_next m (link_loop_next m s0)))"
  using before
proof (induction before arbitrary: cur)
  case Nil
  from side show ?case by (auto simp: Let_def)
next
  case (Cons p ps)
  from Cons.prems obtain g0 g1 gs where
    "edge_link_faces m (loop_edge m (link_loop_next m (link_loop_next m p))) = g0 # g1 # gs"
    "g0 \<noteq> ext" "g1 \<noteq> ext"
    by auto
  moreover from Cons.prems have "\<forall>p\<in>set ps. \<exists>f0 f1 fs.
        edge_link_faces m (loop_edge m (link_loop_next m (link_loop_next m p))) = f0 # f1 # fs
        \<and> f0 \<noteq> ext \<and> f1 \<noteq> ext"
    by simp
  ultimately show ?case
    using Cons.IH by (simp add: Let_def)
qed

text \<open>
  Claim C3, with the sign of the test. The kernel extrudes the face of the base into a
  prism: \<open>ext\<close> is the first face among the new elements, moved along its normal by
  \<open>depth\<close>; \<open>walls\<close> are N distinct loops, N the number of vertices of the base,
  one on each side face; the first of them is the first loop around the first edge of
  the base whose opposite edge borders \<open>ext\<close>, and \<open>c\<close> is the loop of \<open>ext\<close> on that
  edge; from each wall the loop across its next edge is followed by the next wall, the
  last one leading to the first. When the z component of the normal of \<open>ext\<close>, with its
  sign, exceeds \<^verbatim>\<open>verticalNormalThreshold\<close>, \<^verbatim>\<open>extrude\<close> returns a 3D shape whose list
  of shapes is the base shape itself, a \<^verbatim>\<open>Shape2d\<close> on \<open>c\<close>, whose face is the cap
  \<open>ext\<close>, and the N walls as rectangles in the order of the ring: N + 2 shapes, for
  every depth.
\<close>

theorem extrude_prism:
  assumes region: "extrude_face_region K (bm ctx) [face self] = (m1, skipped @ BMFace ext # others)"
      "\<forall>f. BMFace f \<notin> set skipped"
    and moved: "m = translate_verts K m1 (face_verts m1 ext) (smul depth (face_normal m1 ext))"
    and horizontal: "thr < vz (face_normal m ext)"
    and walls: "walls \<noteq> []" "distinct walls" "length walls = length (face_verts m (face self))"
    and first_edge: "edge_link_loops m (loop_edge m (firstLoop self)) = before @ hd walls # after"
    and base_edges: "\<forall>p\<in>set before. \<exists>f0 f1 fs.
        edge_link_faces m (loop_edge m (link_loop_next m (link_loop_next m p))) = f0 # f1 # fs
        \<and> f0 \<noteq> ext \<and> f1 \<noteq> ext"
    and cap_edge:
      "edge_link_faces m (loop_edge m (link_loop_next m (link_loop_next m (hd walls)))) = [f0, f1]"
      "f0 = ext \<or> f1 = ext"
    and cap_loop: "loop_link_loops m (link_loop_next m (link_loop_next m (hd walls))) = c # cs"
      "loop_face m c = ext"
    and ring: "\<forall>i<length walls. \<exists>r rs.
        loop_link_loops m (link_loop_next m (walls ! i)) = r # rs
        \<and> link_loop_next m r = walls ! (Suc i mod length walls)"
  shows "\<exists>s ctx'. extrude K thr depth self ctx = Some (Inr (s, ctx'))
           \<and> shapes s = self # Shape2d m c # map (Rectangle m) walls
           \<and> face (shapes s ! 1) = ext
           \<and> length (shapes s) = length (face_verts m (face self)) + 2"
proof -
  have geometry: "extrude_geometry K depth self ctx = Inr (m, ext)"
    by (simp add: extrude_geometry_def region(1) for_extrudedFace_first[OF region(2)] moved)
  have topology: "first_side_loop m ext self = Inr (hd walls, c)"
    by (simp add: first_side_loop_def first_edge Let_def
        for_side_loop_first[OF base_edges cap_edge] cap_loop(1))
  from walls(1) have w: "walls = hd walls # tl walls" by simp
  from extrude_along_ring[OF geometry topology cap_loop(2) horizontal w walls(2) ring walls(3)]
  show ?thesis .
qed

text \<open>
  Claim C2, amended. When the z component of the cap's normal does not exceed
  \<^verbatim>\<open>verticalNormalThreshold\<close>, \<^verbatim>\<open>extrude\<close> raises nothing for it: it returns the 3D
  shape of the base shape and the cap shape alone, with no side wall. Once the kernel
  has made the extruded face, it fails only where the search for the first side loop
  fails.
\<close>

theorem extrude_oblique_returns:
  assumes geometry: "extrude_geometry K depth self ctx = Inr (m, ext)"
    and oblique: "\<not> thr < vz (face_normal m ext)"
  shows "extrude K thr depth self ctx =
           (case first_side_loop m ext self of
              Inl e \<Rightarrow> Some (Inl e)
            | Inr (loop, c) \<Rightarrow>
                Some (Inr (Shape3d m [self, Shape2d m c] (firstLoop self), ctx\<lparr>bm := m\<rparr>)))"
proof (cases "first_side_loop m ext self")
  case (Inl e)
  with geometry show ?thesis by (simp add: extrude_def)
next
  case (Inr p)
  obtain loop c where p: "p = (loop, c)" by (cases p)
  from Inr p have t: "first_side_loop m ext self = Inr (loop, c)" by simp
  show ?thesis
    using oblique by (simp add: extrude_unfold[OF geometry t] t)
qed

text \<open>
  Claim C4, amended. The side faces are walked if and only if the z component of the
  cap's normal, with its sign, exceeds \<^verbatim>\<open>verticalNormalThreshold\<close>: a 3D shape
  \<^verbatim>\<open>extrude\<close> returns has more than the two shapes of base and cap exactly then, and
  then the third shape is the rectangle of the first side loop.
\<close>

theorem extrude_walk_iff:
  assumes geometry: "extrude_geometry K depth self ctx = Inr (m, ext)"
    and topology: "first_side_loop m ext self = Inr (loop, c)"
    and ret: "extrude K thr depth self ctx = Some (Inr (s, ctx'))"
  shows "(thr < vz (face_normal m ext) \<longrightarrow>
            (\<exists>others. shapes s = [self, Shape2d m c] @ Rectangle m loop # others))
         \<and> (\<not> thr < vz (face_normal m ext) \<longrightarrow> shapes s = [self, Shape2d m c])
         \<and> (2 < length (shapes s)) = (thr < vz (face_normal m ext))"
proof (cases "thr < vz (face_normal m ext)")
  case True
  with ret obtain ss' where w: "side_ring m loop loop [self, Shape2d m c] = Some (Inr ss')"
    and s: "s = Shape3d m ss' (firstLoop self)"
    by (simp add: extrude_unfold[OF geometry topology] split: option.splits sum.splits)
  from side_ring_prefix[OF w] obtain others
    where "ss' = [self, Shape2d m c] @ Rectangle m loop # others" ..
  with s True show ?thesis by (simp add: Shape3d_def)
next
  case False
  with ret have "s = Shape3d m [self, Shape2d m c] (firstLoop self)"
    by (simp add: extrude_unfold[OF geometry topology])
  with False show ?thesis by (simp add: Shape3d_def)
qed

text \<open>
  Claim C5, amended. The 3D shape \<^verbatim>\<open>extrude\<close> returns is built on the first loop of
  the base shape itself, \<^verbatim>\<open>self.firstLoop\<close>, and its origin is the vertex of that loop.
\<close>

theorem extrude_anchor:
  assumes ret: "extrude K thr depth self ctx = Some (Inr (s, ctx'))"
  shows "firstLoop3d s = firstLoop self \<and> origin3d s = loop_vert (bm ctx') (firstLoop self)"
proof (cases "extrude_geometry K depth self ctx")
  case (Inl e)
  with ret show ?thesis by (simp add: extrude_def)
next
  case (Inr g)
  obtain m ext where g: "g = (m, ext)" by (cases g)
  from Inr g have geometry: "extrude_geometry K depth self ctx = Inr (m, ext)" by simp
  show ?thesis
  proof (cases "first_side_loop m ext self")
    case (Inl e)
    with ret geometry show ?thesis by (simp add: extrude_def)
  next
    case (Inr p)
    obtain loop c where p: "p = (loop, c)" by (cases p)
    from Inr p have topology: "first_side_loop m ext self = Inr (loop, c)" by simp
    define w where "w = (if thr < vz (face_normal m ext)
        then side_ring m loop loop [self, Shape2d m c] else Some (Inr [self, Shape2d m c]))"
    from ret have r: "(case w of None \<Rightarrow> None | Some (Inl e) \<Rightarrow> Some (Inl e)
        | Some (Inr ss') \<Rightarrow> Some (Inr (Shape3d m ss' (firstLoop self), ctx\<lparr>bm := m\<rparr>))) =
        Some (Inr (s, ctx'))"
      unfolding w_def extrude_unfold[OF geometry topology] .
    then obtain ss' where w: "w = Some (Inr ss')"
      by (cases w) (simp_all split: sum.splits)
    from r have p: "(Shape3d m ss' (firstLoop self), ctx\<lparr>bm := m\<rparr>) = (s, ctx')"
      unfolding w by (simp only: option.case sum.case option.inject sum.inject)
    have s: "s = Shape3d m ss' (firstLoop self)"
      using arg_cong[OF p, of fst] by (simp only: fst_conv)
    have c: "ctx' = ctx\<lparr>bm := m\<rparr>"
      using arg_cong[OF p, of snd] by (simp only: snd_conv)
    show ?thesis
      unfolding s c by (simp add: Shape3d_def)
  qed
qed

subsection \<open>The extrusion of a quadrilateral by the kernel of the examples\<close>

lemma box_cap:
  "face_verts (box_mesh cs n) (Suc 0) = [4, 5, 6, 7]" "face_normal (box_mesh cs n) (Suc 0) = n"
  by (simp_all add: box_mesh_def)

lemma quad_geometry:
  assumes "loop_face m 0 = 0"
  shows "extrude_geometry simple_kernel depth (Shape2d m 0) (session m) =
    Inr (extruded_box m depth, 1)"
  using assms
  by (simp add: extrude_geometry_def simple_kernel_def Shape2d_def session_def extruded_box_def
      box_cap)

lemma quad_first_side:
  assumes "firstLoop self = 0"
  shows "first_side_loop (extruded_box m depth) 1 self = Inr (8, 4)"
  using assms
  by (simp add: first_side_loop_def extruded_box_def simple_translate_def box_mesh_def Let_def)

lemma quad_cap_normal:
  "face_normal (extruded_box m depth) 1 = face_normal m 0"
  "face_normal (extruded_box m depth) (Suc 0) = face_normal m 0"
  by (simp_all add: extruded_box_def simple_translate_def box_mesh_def)

lemma quad_cap_loop: "loop_face (extruded_box m depth) 4 = 1"
  by (simp add: extruded_box_def simple_translate_def box_mesh_def)

lemma quad_base_verts: "face_verts (extruded_box m depth) 0 = [0, 1, 2, 3]"
  by (simp add: extruded_box_def simple_translate_def box_mesh_def)

lemma quad_ring_step:
  "\<forall>i<length [8, 12, 16, 20 :: nat]. \<exists>r rs.
     loop_link_loops (extruded_box m depth) (link_loop_next (extruded_box m depth) ([8, 12, 16, 20] ! i)) = r # rs
     \<and> link_loop_next (extruded_box m depth) r = [8, 12, 16, 20] ! (Suc i mod length [8, 12, 16, 20 :: nat])"
proof (intro allI impI)
  fix i :: nat
  assume "i < length [8, 12, 16, 20 :: nat]"
  then consider "i = 0" | "i = 1" | "i = 2" | "i = 3"
    by (auto simp: less_Suc_eq)
  then show "\<exists>r rs.
     loop_link_loops (extruded_box m depth) (link_loop_next (extruded_box m depth) ([8, 12, 16, 20] ! i)) = r # rs
     \<and> link_loop_next (extruded_box m depth) r = [8, 12, 16, 20] ! (Suc i mod length [8, 12, 16, 20 :: nat])"
    by cases (simp_all add: extruded_box_def simple_translate_def box_mesh_def)
qed

lemma polygon_loop_face: "loop_face (polygon_mesh cs n) 0 = 0"
  by (simp add: polygon_mesh_def Let_def)

lemma sqrt_half_bounds: "sqrt (1 / 2) < 1" "- 1 < sqrt (1 / 2)" "0 < sqrt (1 / 2)"
  by (simp_all add: less_le_trans[of "- 1" 0])

lemma quad_first_shape: "firstLoop (Shape2d m 0) = 0"
  by (simp add: Shape2d_def)

lemma quad_extrude_flat:
  assumes "\<not> thr < vz n"
  shows "extrude simple_kernel thr depth (Shape2d (polygon_mesh cs n) 0) (session (polygon_mesh cs n)) =
    Some (Inr (Shape3d (extruded_box (polygon_mesh cs n) depth)
                 [Shape2d (polygon_mesh cs n) 0, Shape2d (extruded_box (polygon_mesh cs n) depth) 4] 0,
               (session (polygon_mesh cs n))\<lparr>bm := extruded_box (polygon_mesh cs n) depth\<rparr>))"
proof -
  have n: "face_normal (polygon_mesh cs n) 0 = n"
    by (simp add: polygon_mesh_def Let_def)
  show ?thesis
    using assms
    by (simp add: extrude_unfold[OF quad_geometry[OF polygon_loop_face] quad_first_side[OF quad_first_shape]]
        quad_cap_normal n quad_first_shape)
qed

lemma quad_extrude_walk:
  assumes "thr < vz n"
  shows "extrude simple_kernel thr depth (Shape2d (polygon_mesh cs n) 0) (session (polygon_mesh cs n)) =
    Some (Inr (Shape3d (extruded_box (polygon_mesh cs n) depth)
                 [Shape2d (polygon_mesh cs n) 0,
                  Shape2d (extruded_box (polygon_mesh cs n) depth) 4,
                  Rectangle (extruded_box (polygon_mesh cs n) depth) 8,
                  Rectangle (extruded_box (polygon_mesh cs n) depth) 12,
                  Rectangle (extruded_box (polygon_mesh cs n) depth) 16,
                  Rectangle (extruded_box (polygon_mesh cs n) depth) 20] 0,
               (session (polygon_mesh cs n))\<lparr>bm := extruded_box (polygon_mesh cs n) depth\<rparr>))"
proof -
  have n: "face_normal (polygon_mesh cs n) 0 = n"
    by (simp add: polygon_mesh_def Let_def)
  have r: "distinct [8, 12, 16, 20 :: nat]" "[8, 12, 16, 20 :: nat] \<noteq> []" "0 < length [8, 12, 16, 20 :: nat]"
    by simp_all
  have w: "side_ring (extruded_box (polygon_mesh cs n) depth) 8 8 ss =
      Some (Inr (ss @ map (Rectangle (extruded_box (polygon_mesh cs n) depth)) [8, 12, 16, 20]))" for ss
    using side_ring_along[OF r(1,2) quad_ring_step r(3), of "polygon_mesh cs n" depth ss] by simp
  show ?thesis
    using assms
    by (simp add: extrude_unfold[OF quad_geometry[OF polygon_loop_face] quad_first_side[OF quad_first_shape]]
        quad_cap_normal n quad_first_shape w)
qed

lemma floor_up_normal: "vz (face_normal (extruded_box floor_up depth) 1) = 1"
  unfolding quad_cap_normal by (simp add: floor_up_def polygon_mesh_def)

lemma floor_down_normal: "vz (face_normal (extruded_box floor_down depth) 1) = - 1"
  unfolding quad_cap_normal by (simp add: floor_down_def polygon_mesh_def)

lemma wall_normal: "vz (face_normal (extruded_box wall depth) 1) = 0"
  unfolding quad_cap_normal by (simp add: wall_def polygon_mesh_def)

lemma floor_up_extrude:
  "extrude simple_kernel (sqrt (1 / 2)) 3 (Shape2d floor_up 0) (session floor_up) =
    Some (Inr (Shape3d (extruded_box floor_up 3)
                 [Shape2d floor_up 0, Shape2d (extruded_box floor_up 3) 4,
                  Rectangle (extruded_box floor_up 3) 8, Rectangle (extruded_box floor_up 3) 12,
                  Rectangle (extruded_box floor_up 3) 16, Rectangle (extruded_box floor_up 3) 20] 0,
               (session floor_up)\<lparr>bm := extruded_box floor_up 3\<rparr>))"
  unfolding floor_up_def by (rule quad_extrude_walk) simp

lemma floor_down_extrude:
  "extrude simple_kernel (sqrt (1 / 2)) 1 (Shape2d floor_down 0) (session floor_down) =
    Some (Inr (Shape3d (extruded_box floor_down 1)
                 [Shape2d floor_down 0, Shape2d (extruded_box floor_down 1) 4] 0,
               (session floor_down)\<lparr>bm := extruded_box floor_down 1\<rparr>))"
  unfolding floor_down_def by (rule quad_extrude_flat) (simp add: not_less less_imp_le[OF sqrt_half_bounds(2)])

lemma wall_extrude:
  "extrude simple_kernel (sqrt (1 / 2)) 2 (Shape2d wall 0) (session wall) =
    Some (Inr (Shape3d (extruded_box wall 2)
                 [Shape2d wall 0, Shape2d (extruded_box wall 2) 4] 0,
               (session wall)\<lparr>bm := extruded_box wall 2\<rparr>))"
  unfolding wall_def by (rule quad_extrude_flat) simp

text \<open>
  The prism the kernel of the examples makes of a quadrilateral: the elements it returns,
  the move of the cap, the loops around the first edge of the base, and the loop of the
  cap above the first wall.
\<close>

lemma quad_region:
  assumes "loop_face m 0 = 0"
  shows "extrude_face_region simple_kernel (bm (session m)) [face (Shape2d m 0)] =
    (box_mesh (map (vert_co m) [0, 1, 2, 3]) (face_normal m 0),
     [BMVert 4, BMVert 5, BMVert 6, BMVert 7, BMEdge 4, BMEdge 5, BMEdge 6, BMEdge 7]
       @ BMFace 1 # [BMFace 2, BMFace 3, BMFace 4, BMFace 5])"
  using assms by (simp add: simple_kernel_def session_def Shape2d_def)

lemma quad_moved:
  "extruded_box m depth =
     translate_verts simple_kernel (box_mesh (map (vert_co m) [0, 1, 2, 3]) (face_normal m 0))
       (face_verts (box_mesh (map (vert_co m) [0, 1, 2, 3]) (face_normal m 0)) 1)
       (smul depth (face_normal (box_mesh (map (vert_co m) [0, 1, 2, 3]) (face_normal m 0)) 1))"
  by (simp add: extruded_box_def simple_kernel_def box_cap)

lemma quad_first_edge:
  "edge_link_loops (extruded_box m depth) (loop_edge (extruded_box m depth) 0) =
     [0] @ hd [8, 12, 16, 20] # []"
  by (simp add: extruded_box_def simple_translate_def box_mesh_def)

lemma quad_base_edges:
  "\<forall>p\<in>set [0 :: nat]. \<exists>f0 f1 fs.
     edge_link_faces (extruded_box m depth) (loop_edge (extruded_box m depth)
       (link_loop_next (extruded_box m depth) (link_loop_next (extruded_box m depth) p))) = f0 # f1 # fs
     \<and> f0 \<noteq> 1 \<and> f1 \<noteq> 1"
  by (simp add: extruded_box_def simple_translate_def box_mesh_def)

lemma quad_cap_edge:
  "edge_link_faces (extruded_box m depth) (loop_edge (extruded_box m depth)
     (link_loop_next (extruded_box m depth) (link_loop_next (extruded_box m depth)
       (hd [8, 12, 16, 20])))) = [1, 2]"
  by (simp add: extruded_box_def simple_translate_def box_mesh_def)

lemma quad_cap_link:
  "loop_link_loops (extruded_box m depth)
     (link_loop_next (extruded_box m depth) (link_loop_next (extruded_box m depth)
       (hd [8, 12, 16, 20]))) = 4 # []"
  by (simp add: extruded_box_def simple_translate_def box_mesh_def)

text \<open>
  The floor facing up, extruded by 3 with the threshold \<open>sqrt (1 / 2)\<close>: the kernel
  returns four vertices and four edges before the cap 1; the loop 0 of the base comes
  before the wall loop 8 around the first edge; the walls are the loops 8, 12, 16 and
  20. The shape returned holds the base, the cap and the four walls.
\<close>

theorem extrude_prism_witness:
  "\<exists>s ctx'. extrude simple_kernel (sqrt (1 / 2)) 3 (Shape2d floor_up 0) (session floor_up) =
       Some (Inr (s, ctx'))
     \<and> shapes s = [Shape2d floor_up 0, Shape2d (extruded_box floor_up 3) 4,
         Rectangle (extruded_box floor_up 3) 8, Rectangle (extruded_box floor_up 3) 12,
         Rectangle (extruded_box floor_up 3) 16, Rectangle (extruded_box floor_up 3) 20]
     \<and> face (shapes s ! 1) = 1
     \<and> length (shapes s) = 4 + 2"
proof -
  have lf: "loop_face floor_up 0 = 0"
    unfolding floor_up_def by (rule polygon_loop_face)
  have h: "sqrt (1 / 2) < vz (face_normal (extruded_box floor_up 3) 1)"
    unfolding floor_up_normal by simp
  have n: "length [8, 12, 16, 20 :: nat] =
      length (face_verts (extruded_box floor_up 3) (face (Shape2d floor_up 0)))"
    by (simp add: quad_base_verts Shape2d_def lf)
  have w: "[8, 12, 16, 20 :: nat] \<noteq> []" "distinct [8, 12, 16, 20 :: nat]"
    by simp_all
  have fe: "edge_link_loops (extruded_box floor_up 3)
      (loop_edge (extruded_box floor_up 3) (firstLoop (Shape2d floor_up 0))) =
      [0] @ hd [8, 12, 16, 20] # []"
    unfolding quad_first_shape by (rule quad_first_edge)
  have ce: "(1 :: nat) = 1 \<or> (2 :: nat) = 1" by simp
  from extrude_prism[OF quad_region[OF lf] _ quad_moved h w n fe quad_base_edges quad_cap_edge ce
      quad_cap_link quad_cap_loop quad_ring_step]
  obtain s ctx' where e: "extrude simple_kernel (sqrt (1 / 2)) 3 (Shape2d floor_up 0)
        (session floor_up) = Some (Inr (s, ctx'))"
    and sh: "shapes s = Shape2d floor_up 0 # Shape2d (extruded_box floor_up 3) 4
        # map (Rectangle (extruded_box floor_up 3)) [8, 12, 16, 20]"
    and f: "face (shapes s ! 1) = 1"
    and len: "length (shapes s) =
        length (face_verts (extruded_box floor_up 3) (face (Shape2d floor_up 0))) + 2"
    by auto
  from len have "length (shapes s) = 4 + 2"
    unfolding n[symmetric] by simp
  with e sh f show ?thesis
    by (intro exI[of _ s] exI[of _ ctx']) simp
qed

text \<open>
  Claim C3 as stated fails on the floor facing down, extruded by 1: the cap's normal
  is (0, 0, -1), horizontal by its absolute z component, the base has four sides, and
  the shape returned has two shapes, not six.
\<close>

theorem extrude_prism_counterexample:
  "sqrt (1 / 2) < \<bar>vz (face_normal (extruded_box floor_down 1) 1)\<bar>
   \<and> length (face_verts (extruded_box floor_down 1) 0) = 4
   \<and> (\<exists>s ctx'. extrude simple_kernel (sqrt (1 / 2)) 1 (Shape2d floor_down 0) (session floor_down) =
         Some (Inr (s, ctx')) \<and> length (shapes s) = 2)"
  unfolding floor_down_extrude floor_down_normal quad_base_verts
  by (simp add: Shape3d_def)

text \<open>The wall, extruded by 2 along its normal (0, -1, 0): base and cap, no error.\<close>

theorem extrude_oblique_witness:
  "extrude_geometry simple_kernel 2 (Shape2d wall 0) (session wall) = Inr (extruded_box wall 2, 1)
   \<and> \<not> sqrt (1 / 2) < vz (face_normal (extruded_box wall 2) 1)
   \<and> extrude simple_kernel (sqrt (1 / 2)) 2 (Shape2d wall 0) (session wall) =
       Some (Inr (Shape3d (extruded_box wall 2) [Shape2d wall 0, Shape2d (extruded_box wall 2) 4]
                    (firstLoop (Shape2d wall 0)),
                  (session wall)\<lparr>bm := extruded_box wall 2\<rparr>))"
proof -
  have g: "extrude_geometry simple_kernel 2 (Shape2d wall 0) (session wall) =
      Inr (extruded_box wall 2, 1)"
    unfolding wall_def by (rule quad_geometry[OF polygon_loop_face])
  have o: "\<not> sqrt (1 / 2) < vz (face_normal (extruded_box wall 2) 1)"
    unfolding wall_normal by simp
  have t: "first_side_loop (extruded_box wall 2) 1 (Shape2d wall 0) = Inr (8, 4)"
    by (rule quad_first_side[OF quad_first_shape])
  from extrude_oblique_returns[OF g o] g o show ?thesis
    unfolding t by simp
qed

text \<open>
  Claim C2 as stated fails on the wall: its cap is not horizontal, and \<^verbatim>\<open>extrude\<close>
  returns a shape.
\<close>

theorem extrude_oblique_counterexample:
  "\<not> sqrt (1 / 2) < \<bar>vz (face_normal (extruded_box wall 2) 1)\<bar>
   \<and> (\<exists>s ctx'. extrude simple_kernel (sqrt (1 / 2)) 2 (Shape2d wall 0) (session wall) =
         Some (Inr (s, ctx')))"
  unfolding wall_extrude wall_normal by simp

text \<open>
  The floor facing up: the z component 1 exceeds the threshold, and the sides are
  walked.
\<close>

theorem extrude_walk_witness:
  "sqrt (1 / 2) < vz (face_normal (extruded_box floor_up 3) 1)
   \<and> (\<exists>s ctx'. extrude simple_kernel (sqrt (1 / 2)) 3 (Shape2d floor_up 0) (session floor_up) =
         Some (Inr (s, ctx'))
       \<and> (\<exists>others. shapes s = [Shape2d floor_up 0, Shape2d (extruded_box floor_up 3) 4]
             @ Rectangle (extruded_box floor_up 3) 8 # others)
       \<and> 2 < length (shapes s))"
proof -
  have g: "extrude_geometry simple_kernel 3 (Shape2d floor_up 0) (session floor_up) =
      Inr (extruded_box floor_up 3, 1)"
    unfolding floor_up_def by (rule quad_geometry[OF polygon_loop_face])
  have t: "first_side_loop (extruded_box floor_up 3) 1 (Shape2d floor_up 0) = Inr (8, 4)"
    by (rule quad_first_side[OF quad_first_shape])
  have h: "sqrt (1 / 2) < vz (face_normal (extruded_box floor_up 3) 1)"
    unfolding floor_up_normal by simp
  from extrude_walk_iff[OF g t floor_up_extrude] h floor_up_extrude show ?thesis
    by blast
qed

text \<open>
  Claim C4 as stated fails on the floor facing down: the z component -1 of the cap's
  normal is less than \<open>- sqrt (1 / 2)\<close>, and the shape returned holds the base and the
  cap only: the sides are not walked.
\<close>

theorem extrude_walk_counterexample:
  "sqrt (1 / 2) < \<bar>vz (face_normal (extruded_box floor_down 1) 1)\<bar>
   \<and> vz (face_normal (extruded_box floor_down 1) 1) < - sqrt (1 / 2)
   \<and> extrude simple_kernel (sqrt (1 / 2)) 1 (Shape2d floor_down 0) (session floor_down) =
       Some (Inr (Shape3d (extruded_box floor_down 1)
                    [Shape2d floor_down 0, Shape2d (extruded_box floor_down 1) 4] 0,
                  (session floor_down)\<lparr>bm := extruded_box floor_down 1\<rparr>))"
  unfolding floor_down_normal using floor_down_extrude by simp

text \<open>
  The floor facing up: the 3D shape is built on loop 0, the first loop of the base
  shape.
\<close>

theorem extrude_anchor_witness:
  "firstLoop3d (Shape3d (extruded_box floor_up 3)
                 [Shape2d floor_up 0, Shape2d (extruded_box floor_up 3) 4,
                  Rectangle (extruded_box floor_up 3) 8, Rectangle (extruded_box floor_up 3) 12,
                  Rectangle (extruded_box floor_up 3) 16, Rectangle (extruded_box floor_up 3) 20] 0)
     = firstLoop (Shape2d floor_up 0)"
  using extrude_anchor[OF floor_up_extrude] by blast

text \<open>
  Claim C5 as stated fails on the floor facing up: the loop found on the first side
  face is loop 8, and the 3D shape returned is built on loop 0 of the base.
\<close>

theorem extrude_anchor_counterexample:
  "first_side_loop (extruded_box floor_up 3) 1 (Shape2d floor_up 0) = Inr (8, 4)
   \<and> firstLoop (Shape2d floor_up 0) = 0
   \<and> (\<exists>s ctx'. extrude simple_kernel (sqrt (1 / 2)) 3 (Shape2d floor_up 0) (session floor_up) =
         Some (Inr (s, ctx')) \<and> firstLoop3d s = 0 \<and> firstLoop3d s \<noteq> 8)"
  unfolding floor_up_extrude quad_first_side[OF quad_first_shape] quad_first_shape
  by (simp add: Shape3d_def)

section \<open>Properties of the split\<close>

lemma same_Inr: "x = Inr a \<Longrightarrow> x = Inr b \<Longrightarrow> b = a"
  by simp

lemma pair_fst: "(a, b) = (c, d) \<Longrightarrow> a = c"
  by simp

lemma pair_snd: "(a, b) = (c, d) \<Longrightarrow> b = d"
  by simp

text \<open>
  A shape \<^verbatim>\<open>createSplitShape\<close> returns is the rectangle on the first loop of the face
  the kernel made of the vertices; an error it raises is the kernel's, or
  \<^verbatim>\<open>IndexError\<close> for a face without loops.
\<close>

lemma createSplitShape_made:
  assumes "createSplitShape K m vs = Inr (shape, m')"
  shows "\<exists>f l ls. faces_new K m vs = Inr (m', f) \<and> face_loops m' f = l # ls
           \<and> shape = Rectangle m' l"
proof (cases "faces_new K m vs")
  case (Inl e)
  with assms show ?thesis by (simp add: createSplitShape_def)
next
  case (Inr r)
  obtain m1 f where r: "r = (m1, f)" by (cases r)
  show ?thesis
  proof (cases "face_loops m1 f")
    case Nil
    with assms Inr r show ?thesis by (simp add: createSplitShape_def)
  next
    case (Cons l ls)
    have "createSplitShape K m vs = Inr (Rectangle m1 l, m1)"
      by (simp add: createSplitShape_def Inr r Cons)
    note eq = same_Inr[OF this assms]
    have s: "shape = Rectangle m1 l" using eq by (rule pair_fst)
    have m: "m' = m1" using eq by (rule pair_snd)
    from Inr r Cons show ?thesis unfolding s m by blast
  qed
qed

lemma createSplitShape_Inl:
  assumes "createSplitShape K m vs = Inl e"
  shows "(\<exists>m0 vs0. faces_new K m0 vs0 = Inl e)
         \<or> (e = IndexError \<and> (\<exists>m0 vs0 m1 f. faces_new K m0 vs0 = Inr (m1, f) \<and> face_loops m1 f = []))"
proof (cases "faces_new K m vs")
  case (Inl e')
  with assms have "e' = e" by (simp add: createSplitShape_def)
  with Inl show ?thesis by blast
next
  case (Inr r)
  obtain m1 f where r: "r = (m1, f)" by (cases r)
  show ?thesis
  proof (cases "face_loops m1 f")
    case Nil
    with assms Inr r have "e = IndexError" by (simp add: createSplitShape_def)
    with Nil Inr r show ?thesis by blast
  next
    case (Cons l ls)
    with assms Inr r show ?thesis by (simp add: createSplitShape_def)
  qed
qed

text \<open>One round of the loop over the cuts.\<close>

lemma split_loop_step:
  "split_loop K d o1 o2 w1 w2 ((cutValue, rule) # rest) p1 p2 m =
     (case createSplitShape K (fst (verts_new K (fst (verts_new K m (vadd (vert_co m o1) (smul cutValue w1))))
                                   (vadd (vert_co m o2) (smul cutValue w2))))
             (if d = X
              then [p1, snd (verts_new K m (vadd (vert_co m o1) (smul cutValue w1))),
                    snd (verts_new K (fst (verts_new K m (vadd (vert_co m o1) (smul cutValue w1))))
                          (vadd (vert_co m o2) (smul cutValue w2))), p2]
              else [p2, p1, snd (verts_new K m (vadd (vert_co m o1) (smul cutValue w1))),
                    snd (verts_new K (fst (verts_new K m (vadd (vert_co m o1) (smul cutValue w1))))
                          (vadd (vert_co m o2) (smul cutValue w2)))]) of
        Inl e \<Rightarrow> Inl e
      | Inr (shape, m3) \<Rightarrow>
          (case split_loop K d o1 o2 w1 w2 rest
                  (snd (verts_new K m (vadd (vert_co m o1) (smul cutValue w1))))
                  (snd (verts_new K (fst (verts_new K m (vadd (vert_co m o1) (smul cutValue w1))))
                          (vadd (vert_co m o2) (smul cutValue w2)))) m3 of
             Inl e \<Rightarrow> Inl e
           | Inr (entries, q1, q2, m4) \<Rightarrow> Inr ((CutShape shape, rule) # entries, q1, q2, m4)))"
  by (simp add: Let_def split_beta)

text \<open>
  The loop over the cuts makes the sections of the specification, and leaves one entry
  for each cut: the section as its first item, the second item as \<^verbatim>\<open>calculateSplit\<close>
  gave it.
\<close>

lemma split_loop_sections:
  assumes "split_loop K d o1 o2 w1 w2 cuts p1 p2 m = Inr (entries, q1, q2, m')"
  shows "\<exists>made. spec_sections K d o1 o2 w1 w2 cuts p1 p2 m made q1 q2 m'
           \<and> entries = map (\<lambda>(s, r). (CutShape s, r)) made"
  using assms
proof (induction cuts arbitrary: p1 p2 m entries q1 q2 m')
  case Nil
  have "split_loop K d o1 o2 w1 w2 [] p1 p2 m = Inr ([], p1, p2, m)"
    by simp
  note eq = same_Inr[OF this Nil]
  have e: "entries = []" using eq by (rule pair_fst)
  note eq2 = pair_snd[OF eq]
  have q1: "q1 = p1" using eq2 by (rule pair_fst)
  note eq3 = pair_snd[OF eq2]
  have q2: "q2 = p2" using eq3 by (rule pair_fst)
  have m': "m' = m" using eq3 by (rule pair_snd)
  show ?case
    unfolding e q1 q2 m' by (intro exI[of _ "[]"] conjI spec_sections.no_cut) simp
next
  case (Cons c cuts)
  obtain cutValue rule where c: "c = (cutValue, rule)" by (cases c)
  let ?c1 = "vadd (vert_co m o1) (smul cutValue w1)"
  let ?c2 = "vadd (vert_co m o2) (smul cutValue w2)"
  let ?v1 = "verts_new K m ?c1"
  let ?v2 = "verts_new K (fst ?v1) ?c2"
  let ?vs = "if d = X then [p1, snd ?v1, snd ?v2, p2] else [p2, p1, snd ?v1, snd ?v2]"
  note step = split_loop_step[of K d o1 o2 w1 w2 cutValue rule cuts p1 p2 m]
  note prem = Cons.prems[unfolded c step]
  have vs: "?vs = spec_section_verts d p1 (snd ?v1) (snd ?v2) p2"
    by (simp add: spec_section_verts_def)
  show ?case
  proof (cases "createSplitShape K (fst ?v2) ?vs")
    case (Inl e)
    with prem show ?thesis by simp
  next
    case (Inr r)
    obtain shape m3 where r: "r = (shape, m3)" by (cases r)
    from Inr r have cs: "createSplitShape K (fst ?v2) ?vs = Inr (shape, m3)" by simp
    from createSplitShape_made[OF cs] obtain f l ls where
      fn: "faces_new K (fst ?v2) ?vs = Inr (m3, f)" and fl: "face_loops m3 f = l # ls"
      and sh: "shape = Rectangle m3 l"
      by blast
    show ?thesis
    proof (cases "split_loop K d o1 o2 w1 w2 cuts (snd ?v1) (snd ?v2) m3")
      case (Inl e)
      with prem cs show ?thesis by simp
    next
      case (Inr t)
      obtain es a b m4 where t: "t = (es, a, b, m4)" by (cases t)
      from Inr t have rec: "split_loop K d o1 o2 w1 w2 cuts (snd ?v1) (snd ?v2) m3 = Inr (es, a, b, m4)"
        by simp
      have "split_loop K d o1 o2 w1 w2 (c # cuts) p1 p2 m = Inr ((CutShape shape, rule) # es, a, b, m4)"
        unfolding c step by (simp add: cs rec)
      note eq = same_Inr[OF this Cons.prems]
      have e: "entries = (CutShape shape, rule) # es" using eq by (rule pair_fst)
      note eq2 = pair_snd[OF eq]
      have q1: "q1 = a" using eq2 by (rule pair_fst)
      note eq3 = pair_snd[OF eq2]
      have q2: "q2 = b" using eq3 by (rule pair_fst)
      have m': "m' = m4" using eq3 by (rule pair_snd)
      from Cons.IH[OF rec] obtain made where
        sec: "spec_sections K d o1 o2 w1 w2 cuts (snd ?v1) (snd ?v2) m3 made a b m4"
        and es: "es = map (\<lambda>(s, r). (CutShape s, r)) made"
        by blast
      have v1: "verts_new K m ?c1 = (fst ?v1, snd ?v1)" by simp
      have v2: "verts_new K (fst ?v1) ?c2 = (fst ?v2, snd ?v2)" by simp
      have "spec_sections K d o1 o2 w1 w2 ((cutValue, rule) # cuts) p1 p2 m
          ((Rectangle m3 l, rule) # made) a b m4"
        by (rule spec_sections.cut[OF v1 v2 fn[unfolded vs] fl sec])
      then show ?thesis
        unfolding e q1 q2 m' c sh es
        by (intro exI[of _ "(Rectangle m3 l, rule) # made"]) simp
    qed
  qed
qed

lemma spec_sections_length:
  "spec_sections K d o1 o2 w1 w2 cuts p1 p2 m made q1 q2 m' \<Longrightarrow>
     length made = length cuts \<and> map snd made = map snd cuts"
  by (induction rule: spec_sections.induct) simp_all

lemma split_loop_Inl:
  assumes "split_loop K d o1 o2 w1 w2 cuts p1 p2 m = Inl e"
  shows "(\<exists>m0 vs0. faces_new K m0 vs0 = Inl e)
         \<or> (e = IndexError \<and> (\<exists>m0 vs0 m1 f. faces_new K m0 vs0 = Inr (m1, f) \<and> face_loops m1 f = []))"
  using assms
proof (induction cuts arbitrary: p1 p2 m)
  case Nil
  then show ?case by simp
next
  case (Cons c cuts)
  obtain cutValue rule where c: "c = (cutValue, rule)" by (cases c)
  let ?v1 = "verts_new K m (vadd (vert_co m o1) (smul cutValue w1))"
  let ?v2 = "verts_new K (fst ?v1) (vadd (vert_co m o2) (smul cutValue w2))"
  let ?vs = "if d = X then [p1, snd ?v1, snd ?v2, p2] else [p2, p1, snd ?v1, snd ?v2]"
  note step = split_loop_step[of K d o1 o2 w1 w2 cutValue rule cuts p1 p2 m]
  note prem = Cons.prems[unfolded c step]
  show ?case
  proof (cases "createSplitShape K (fst ?v2) ?vs")
    case (Inl e')
    with prem have "e' = e" by simp
    with Inl show ?thesis by (simp only: createSplitShape_Inl)
  next
    case (Inr r)
    obtain shape m3 where r: "r = (shape, m3)" by (cases r)
    from Inr r have cs: "createSplitShape K (fst ?v2) ?vs = Inr (shape, m3)" by simp
    show ?thesis
    proof (cases "split_loop K d o1 o2 w1 w2 cuts (snd ?v1) (snd ?v2) m3")
      case (Inl e')
      with prem cs have "e' = e" by simp
      with Inl Cons.IH show ?thesis by blast
    next
      case (Inr t)
      obtain es a b m4 where t: "t = (es, a, b, m4)" by (cases t)
      with Inr prem cs show ?thesis by simp
    qed
  qed
qed

text \<open>\<^verbatim>\<open>split\<close> with its local variables written out.\<close>

lemma split_unfold:
  "split K calculateSplit direction parts self ctx =
     (case split_loop K direction
             (loop_vert (bm ctx) (reference_loop (bm ctx) direction self))
             (getEndVertex (bm ctx) (link_loop_next (bm ctx) (link_loop_next (bm ctx)
                (reference_loop (bm ctx) direction self))))
             (vsub (vert_co (bm ctx) (getEndVertex (bm ctx) (reference_loop (bm ctx) direction self)))
                (vert_co (bm ctx) (loop_vert (bm ctx) (reference_loop (bm ctx) direction self))))
             (vsub (vert_co (bm ctx) (loop_vert (bm ctx) (link_loop_next (bm ctx) (link_loop_next (bm ctx)
                  (reference_loop (bm ctx) direction self)))))
                (vert_co (bm ctx) (getEndVertex (bm ctx) (link_loop_next (bm ctx) (link_loop_next (bm ctx)
                  (reference_loop (bm ctx) direction self))))))
             (butlast (calculateSplit parts (reference_length (bm ctx) direction self)))
             (loop_vert (bm ctx) (reference_loop (bm ctx) direction self))
             (getEndVertex (bm ctx) (link_loop_next (bm ctx) (link_loop_next (bm ctx)
                (reference_loop (bm ctx) direction self))))
             (bm ctx) of
        Inl e \<Rightarrow> Inl e
      | Inr (entries, prevVert1, prevVert2, m') \<Rightarrow>
          (case createSplitShape K m'
                  (if direction = X
                   then [prevVert1, getEndVertex (bm ctx) (reference_loop (bm ctx) direction self),
                         loop_vert (bm ctx) (link_loop_next (bm ctx) (link_loop_next (bm ctx)
                           (reference_loop (bm ctx) direction self))), prevVert2]
                   else [prevVert2, prevVert1,
                         getEndVertex (bm ctx) (reference_loop (bm ctx) direction self),
                         loop_vert (bm ctx) (link_loop_next (bm ctx) (link_loop_next (bm ctx)
                           (reference_loop (bm ctx) direction self)))]) of
             Inl e \<Rightarrow> Inl e
           | Inr (shape, m'') \<Rightarrow>
               (case calculateSplit parts (reference_length (bm ctx) direction self) of
                  [] \<Rightarrow> Inl IndexError
                | _ # _ \<Rightarrow>
                    Inr (entries @ [(CutShape shape,
                           snd (last (calculateSplit parts (reference_length (bm ctx) direction self))))],
                         ctx\<lparr>bm := m'', facesForRemoval := facesForRemoval ctx @ [face self]\<rparr>))))"
  unfolding split_def Let_def by (rule refl)

lemma case_list_Nil: "xs = [] \<Longrightarrow> (case xs of [] \<Rightarrow> a | y # ys \<Rightarrow> b y ys) = a"
  by simp

lemma case_list_Cons: "xs \<noteq> [] \<Longrightarrow> (case xs of [] \<Rightarrow> a | y # ys \<Rightarrow> b) = b"
  by (cases xs) simp_all

text \<open>
  Claim C1, amended. Let \<open>cuts\<close> be the list \<^verbatim>\<open>calculateSplit\<close> answers for the length
  of the reference edge (the edge of the first loop for the axis X, of the next loop for
  the axis Y). Whenever \<^verbatim>\<open>split\<close> returns, \<open>cuts\<close> is not empty and the list returned
  has one entry for each cut, in the same order. For every cut but the last the kernel
  has created two vertices, at the positions interpolated at the cut parameter on the
  reference edge and on the opposite edge, and a face from the boundary of the previous
  cut to these vertices, the vertices in the order of the axis; for the last cut it has
  created a face from the boundary of the last cut to the end vertices of the two edges
  themselves. The first item of each entry is no longer the cut parameter but the
  rectangle on the first loop of the face of its section; the second item is the one
  \<^verbatim>\<open>calculateSplit\<close> put there. The mesh of the session is the mesh the kernel left,
  and the face of the shape is appended to the faces for removal.
\<close>

theorem split_sections:
  assumes ret: "split K calculateSplit direction parts self ctx = Inr (res, ctx')"
    and m: "m = bm ctx"
    and ref: "ref = (if direction = X then firstLoop self else link_loop_next m (firstLoop self))"
    and opp: "opp = link_loop_next m (link_loop_next m ref)"
    and cuts: "cuts = calculateSplit parts
        (vlength (vsub (vert_co m (snd (edge_verts m (loop_edge m ref))))
                       (vert_co m (fst (edge_verts m (loop_edge m ref))))))"
  shows "\<exists>made lastRef lastOpp m' m'' f l ls.
           spec_sections K direction (loop_vert m ref) (getEndVertex m opp)
             (vsub (vert_co m (getEndVertex m ref)) (vert_co m (loop_vert m ref)))
             (vsub (vert_co m (loop_vert m opp)) (vert_co m (getEndVertex m opp)))
             (butlast cuts) (loop_vert m ref) (getEndVertex m opp) m
             made lastRef lastOpp m'
         \<and> faces_new K m' (spec_section_verts direction lastRef (getEndVertex m ref)
                              (loop_vert m opp) lastOpp) = Inr (m'', f)
         \<and> face_loops m'' f = l # ls
         \<and> cuts \<noteq> []
         \<and> res = map (\<lambda>(s, r). (CutShape s, r)) made @ [(CutShape (Rectangle m'' l), snd (last cuts))]
         \<and> length res = length cuts
         \<and> map snd res = map snd cuts
         \<and> ctx' = ctx\<lparr>bm := m'', facesForRemoval := facesForRemoval ctx @ [face self]\<rparr>"
proof -
  have rl: "reference_loop m direction self = ref"
    by (simp add: reference_loop_def ref)
  have rlen: "calculateSplit parts (reference_length m direction self) = cuts"
    by (simp add: reference_length_def rl cuts Let_def)
  let ?loop = "split_loop K direction (loop_vert m ref) (getEndVertex m opp)
      (vsub (vert_co m (getEndVertex m ref)) (vert_co m (loop_vert m ref)))
      (vsub (vert_co m (loop_vert m opp)) (vert_co m (getEndVertex m opp)))
      (butlast cuts) (loop_vert m ref) (getEndVertex m opp) m"
  note unf = split_unfold[of K calculateSplit direction parts self ctx,
      folded m, unfolded rl rlen, folded opp]
  show ?thesis
  proof (cases ?loop)
    case (Inl e)
    have "split K calculateSplit direction parts self ctx = Inl e"
      by (simp only: unf Inl sum.case)
    with ret show ?thesis by simp
  next
    case (Inr t)
    obtain entries p1 p2 m1 where t: "t = (entries, p1, p2, m1)" by (cases t)
    from Inr t have lp: "?loop = Inr (entries, p1, p2, m1)" by simp
    let ?vs = "if direction = X then [p1, getEndVertex m ref, loop_vert m opp, p2]
               else [p2, p1, getEndVertex m ref, loop_vert m opp]"
    have vs: "?vs = spec_section_verts direction p1 (getEndVertex m ref) (loop_vert m opp) p2"
      by (simp add: spec_section_verts_def)
    show ?thesis
    proof (cases "createSplitShape K m1 ?vs")
      case (Inl e)
      have "split K calculateSplit direction parts self ctx = Inl e"
        by (simp only: unf lp Inl sum.case prod.case)
      with ret show ?thesis by simp
    next
      case (Inr r)
      obtain shape m2 where r: "r = (shape, m2)" by (cases r)
      from Inr r have cs: "createSplitShape K m1 ?vs = Inr (shape, m2)" by simp
      from createSplitShape_made[OF cs] obtain f l ls where
        fn: "faces_new K m1 ?vs = Inr (m2, f)" and fl: "face_loops m2 f = l # ls"
        and sh: "shape = Rectangle m2 l"
        by blast
      show ?thesis
      proof (cases "cuts = []")
        case True
        have "split K calculateSplit direction parts self ctx = Inl IndexError"
          by (simp only: unf lp cs sum.case prod.case case_list_Nil[OF True])
        with ret show ?thesis by simp
      next
        case ne: False
        have "split K calculateSplit direction parts self ctx =
            Inr (entries @ [(CutShape shape, snd (last cuts))],
                 ctx\<lparr>bm := m2, facesForRemoval := facesForRemoval ctx @ [face self]\<rparr>)"
          by (simp only: unf lp cs sum.case prod.case case_list_Cons[OF ne])
        note eq = same_Inr[OF this ret]
        have res: "res = entries @ [(CutShape shape, snd (last cuts))]"
          using eq by (rule pair_fst)
        have ctx': "ctx' = ctx\<lparr>bm := m2, facesForRemoval := facesForRemoval ctx @ [face self]\<rparr>"
          using eq by (rule pair_snd)
        from split_loop_sections[OF lp] obtain made where
          sec: "spec_sections K direction (loop_vert m ref) (getEndVertex m opp)
             (vsub (vert_co m (getEndVertex m ref)) (vert_co m (loop_vert m ref)))
             (vsub (vert_co m (loop_vert m opp)) (vert_co m (getEndVertex m opp)))
             (butlast cuts) (loop_vert m ref) (getEndVertex m opp) m made p1 p2 m1"
          and es: "entries = map (\<lambda>(s, r). (CutShape s, r)) made"
          by blast
        from spec_sections_length[OF sec] have
          len: "length made = length (butlast cuts)" and rules: "map snd made = map snd (butlast cuts)"
          by blast+
        have r1: "res = map (\<lambda>(s, r). (CutShape s, r)) made @ [(CutShape (Rectangle m2 l), snd (last cuts))]"
          unfolding res es sh by (rule refl)
        have r2: "length res = length cuts"
          unfolding r1 using len ne by simp
        have "map snd res = map snd (butlast cuts) @ [snd (last cuts)]"
          unfolding r1 using rules by (simp add: case_prod_beta comp_def)
        also have "\<dots> = map snd (butlast cuts @ [last cuts])" by simp
        also have "\<dots> = map snd cuts" using ne by simp
        finally have r3: "map snd res = map snd cuts" .
        from sec fn[unfolded vs] fl ne r1 r2 r3 ctx' show ?thesis by blast
      qed
    qed
  qed
qed

text \<open>
  Claim C6, amended. \<^verbatim>\<open>split\<close> does not look at the number of boundary vertices of
  its shape. It fails only with the error of the kernel where the kernel refuses a
  face, or with \<^verbatim>\<open>IndexError\<close> where \<^verbatim>\<open>calculateSplit\<close> answers no cut or the kernel
  makes a face without loops.
\<close>

theorem split_errors:
  assumes fails: "split K calculateSplit direction parts self ctx = Inl e"
  shows "(\<exists>m vs. faces_new K m vs = Inl e)
         \<or> (e = IndexError
             \<and> (calculateSplit parts (reference_length (bm ctx) direction self) = []
                 \<or> (\<exists>m vs m' f. faces_new K m vs = Inr (m', f) \<and> face_loops m' f = [])))"
proof -
  let ?m = "bm ctx"
  let ?ref = "reference_loop ?m direction self"
  let ?opp = "link_loop_next ?m (link_loop_next ?m ?ref)"
  let ?cuts = "calculateSplit parts (reference_length ?m direction self)"
  let ?loop = "split_loop K direction (loop_vert ?m ?ref) (getEndVertex ?m ?opp)
      (vsub (vert_co ?m (getEndVertex ?m ?ref)) (vert_co ?m (loop_vert ?m ?ref)))
      (vsub (vert_co ?m (loop_vert ?m ?opp)) (vert_co ?m (getEndVertex ?m ?opp)))
      (butlast ?cuts) (loop_vert ?m ?ref) (getEndVertex ?m ?opp) ?m"
  show ?thesis
  proof (cases ?loop)
    case (Inl e')
    have "split K calculateSplit direction parts self ctx = Inl e'"
      by (simp only: split_unfold Inl sum.case)
    with fails have "e' = e" by simp
    with Inl have "?loop = Inl e" by simp
    from split_loop_Inl[OF this] show ?thesis by blast
  next
    case (Inr t)
    obtain entries p1 p2 m1 where t: "t = (entries, p1, p2, m1)" by (cases t)
    from Inr t have lp: "?loop = Inr (entries, p1, p2, m1)" by simp
    let ?vs = "if direction = X then [p1, getEndVertex ?m ?ref, loop_vert ?m ?opp, p2]
               else [p2, p1, getEndVertex ?m ?ref, loop_vert ?m ?opp]"
    show ?thesis
    proof (cases "createSplitShape K m1 ?vs")
      case (Inl e')
      have "split K calculateSplit direction parts self ctx = Inl e'"
        by (simp only: split_unfold lp Inl sum.case prod.case)
      with fails have "e' = e" by simp
      with Inl have "createSplitShape K m1 ?vs = Inl e" by simp
      from createSplitShape_Inl[OF this] show ?thesis by blast
    next
      case (Inr r)
      obtain shape m2 where r: "r = (shape, m2)" by (cases r)
      from Inr r have cs: "createSplitShape K m1 ?vs = Inr (shape, m2)" by simp
      show ?thesis
      proof (cases "?cuts = []")
        case True
        have "split K calculateSplit direction parts self ctx = Inl IndexError"
          by (simp only: split_unfold lp cs sum.case prod.case case_list_Nil[OF True])
        with fails have "e = IndexError" by simp
        with True show ?thesis by blast
      next
        case ne: False
        have "split K calculateSplit direction parts self ctx =
            Inr (entries @ [(CutShape shape, snd (last ?cuts))],
                 ctx\<lparr>bm := m2, facesForRemoval := facesForRemoval ctx @ [face self]\<rparr>)"
          by (simp only: split_unfold lp cs sum.case prod.case case_list_Cons[OF ne])
        with fails show ?thesis by simp
      qed
    qed
  qed
qed

subsection \<open>The split by the kernel of the examples\<close>

lemmas split_eval = split_def split_loop.simps createSplitShape_def reference_loop_def
  reference_length_def getEndVertex_def simple_kernel_def simple_faces_new_def simple_verts_new_def
  attach_loop_def with_edge_def find_edge_def n_loops_def polygon_mesh_def session_def
  Rectangle_def Shape2d_def Let_def

lemma rectangle_split:
  "\<exists>ctx'. split simple_kernel two_cuts X () (Rectangle rectangle_10x5 0) (session rectangle_10x5) =
     Inr ([(CutShape \<lparr>cls = Rectangle_class, face = 1, firstLoop = 4, origin = 0, matrix = None\<rparr>, 0),
           (CutShape \<lparr>cls = Rectangle_class, face = 2, firstLoop = 8, origin = 4, matrix = None\<rparr>, 1)],
          ctx')"
  by (simp add: split_eval rectangle_10x5_def two_cuts_def upt_rec_numeral)

lemma pentagon_split:
  "\<exists>ctx'. split simple_kernel one_cut X () (Rectangle pentagon 0) (session pentagon) =
     Inr ([(CutShape \<lparr>cls = Rectangle_class, face = 1, firstLoop = 5, origin = 0, matrix = None\<rparr>, 0)],
          ctx')"
  by (simp add: split_eval pentagon_def one_cut_def upt_rec_numeral)

lemma triangle_split:
  "split simple_kernel one_cut X () (Rectangle triangle 0) (session triangle) = Inl ValueError"
  by (simp add: split_eval triangle_def one_cut_def upt_rec_numeral)

text \<open>
  The rectangle of 10 by 5, split along x at 1/4 and 1. The reference loop is 0 and the
  opposite loop 2; the reference edge goes from the vertex 0 to the vertex 1, the
  opposite one from 3 to 2, both along (10, 0, 0). One section is made at 1/4, and the
  last one is closed on the vertices 1 and 2: two entries, with the rules 0 and 1.
\<close>

theorem split_sections_witness:
  "\<exists>res ctx'. split simple_kernel two_cuts X () (Rectangle rectangle_10x5 0) (session rectangle_10x5) =
       Inr (res, ctx')
     \<and> (\<exists>made lastRef lastOpp m' m'' f l ls.
           spec_sections simple_kernel X 0 3 (Vec 10 0 0) (Vec 10 0 0) [(1 / 4, 0)] 0 3 rectangle_10x5
             made lastRef lastOpp m'
         \<and> faces_new simple_kernel m' (spec_section_verts X lastRef 1 2 lastOpp) = Inr (m'', f)
         \<and> face_loops m'' f = l # ls
         \<and> res = map (\<lambda>(s, r). (CutShape s, r)) made @ [(CutShape (Rectangle m'' l), 1)])
     \<and> length res = 2 \<and> map snd res = [0, 1]
     \<and> facesForRemoval ctx' = [0]"
proof -
  from rectangle_split obtain res ctx' where
    r: "split simple_kernel two_cuts X () (Rectangle rectangle_10x5 0) (session rectangle_10x5) =
       Inr (res, ctx')"
    by blast
  have m: "rectangle_10x5 = bm (session rectangle_10x5)"
    by (simp add: session_def)
  have ref: "0 = (if X = X then firstLoop (Rectangle rectangle_10x5 0)
                  else link_loop_next rectangle_10x5 (firstLoop (Rectangle rectangle_10x5 0)))"
    by (simp add: Rectangle_def Shape2d_def)
  have opp: "2 = link_loop_next rectangle_10x5 (link_loop_next rectangle_10x5 0)"
    by (simp add: rectangle_10x5_def polygon_mesh_def)
  have cuts: "[(1 / 4, 0), (1, 1)] = two_cuts ()
      (vlength (vsub (vert_co rectangle_10x5 (snd (edge_verts rectangle_10x5 (loop_edge rectangle_10x5 0))))
                     (vert_co rectangle_10x5 (fst (edge_verts rectangle_10x5 (loop_edge rectangle_10x5 0))))))"
    by (simp add: two_cuts_def)
  have ev: "loop_vert rectangle_10x5 0 = 0" "getEndVertex rectangle_10x5 2 = 3"
    "getEndVertex rectangle_10x5 0 = 1" "loop_vert rectangle_10x5 2 = 2"
    "vsub (vert_co rectangle_10x5 1) (vert_co rectangle_10x5 0) = Vec 10 0 0"
    "vsub (vert_co rectangle_10x5 2) (vert_co rectangle_10x5 3) = Vec 10 0 0"
    "butlast [(1 / 4, 0), (1, 1 :: nat)] = [(1 / 4 :: real, 0 :: nat)]"
    "snd (last [(1 / 4 :: real, 0 :: nat), (1, 1)]) = 1"
    "face (Rectangle rectangle_10x5 0) = 0"
    by (simp_all add: rectangle_10x5_def polygon_mesh_def getEndVertex_def vsub_def Rectangle_def
        Shape2d_def)
  from split_sections[OF r m ref opp cuts, unfolded ev]
  obtain made lastRef lastOpp m' m'' f l ls where
    a: "spec_sections simple_kernel X 0 3 (Vec 10 0 0) (Vec 10 0 0) [(1 / 4, 0)] 0 3 rectangle_10x5
             made lastRef lastOpp m'"
    and b: "faces_new simple_kernel m' (spec_section_verts X lastRef 1 2 lastOpp) = Inr (m'', f)"
    and c: "face_loops m'' f = l # ls"
    and d: "res = map (\<lambda>(s, r). (CutShape s, r)) made @ [(CutShape (Rectangle m'' l), 1)]"
    and e: "length res = length [(1 / 4 :: real, 0 :: nat), (1, 1)]"
    and f: "map snd res = map snd [(1 / 4 :: real, 0 :: nat), (1, 1)]"
    and g: "ctx' = (session rectangle_10x5)\<lparr>bm := m'',
        facesForRemoval := facesForRemoval (session rectangle_10x5) @ [0]\<rparr>"
    by blast
  from e have e': "length res = 2" by simp
  from f have f': "map snd res = [0, 1]" by simp
  have g': "facesForRemoval ctx' = [0]"
    unfolding g by (simp add: session_def)
  from a b c d have "\<exists>made lastRef lastOpp m' m'' f l ls.
           spec_sections simple_kernel X 0 3 (Vec 10 0 0) (Vec 10 0 0) [(1 / 4, 0)] 0 3 rectangle_10x5
             made lastRef lastOpp m'
         \<and> faces_new simple_kernel m' (spec_section_verts X lastRef 1 2 lastOpp) = Inr (m'', f)
         \<and> face_loops m'' f = l # ls
         \<and> res = map (\<lambda>(s, r). (CutShape s, r)) made @ [(CutShape (Rectangle m'' l), 1)]"
    by blast
  with r e' f' g' show ?thesis
    by (intro exI[of _ res] exI[of _ ctx'] conjI)
qed

text \<open>
  Claim C1 as stated fails on that split: the cut parameters are 1/4 and 1, and the
  first items of the entries returned are the two new rectangles, not these numbers.
\<close>

theorem split_sections_counterexample:
  "map fst (two_cuts () (reference_length rectangle_10x5 X (Rectangle rectangle_10x5 0))) = [1 / 4, 1]
   \<and> (\<exists>res ctx'. split simple_kernel two_cuts X () (Rectangle rectangle_10x5 0) (session rectangle_10x5) =
         Inr (res, ctx')
       \<and> map fst res =
           [CutShape \<lparr>cls = Rectangle_class, face = 1, firstLoop = 4, origin = 0, matrix = None\<rparr>,
            CutShape \<lparr>cls = Rectangle_class, face = 2, firstLoop = 8, origin = 4, matrix = None\<rparr>]
       \<and> map fst res \<noteq> [CutValue (1 / 4), CutValue 1])"
proof -
  from rectangle_split obtain ctx' where
    "split simple_kernel two_cuts X () (Rectangle rectangle_10x5 0) (session rectangle_10x5) =
     Inr ([(CutShape \<lparr>cls = Rectangle_class, face = 1, firstLoop = 4, origin = 0, matrix = None\<rparr>, 0),
           (CutShape \<lparr>cls = Rectangle_class, face = 2, firstLoop = 8, origin = 4, matrix = None\<rparr>, 1)],
          ctx')" ..
  then have "\<exists>res ctx'. split simple_kernel two_cuts X () (Rectangle rectangle_10x5 0) (session rectangle_10x5) =
         Inr (res, ctx')
       \<and> map fst res =
           [CutShape \<lparr>cls = Rectangle_class, face = 1, firstLoop = 4, origin = 0, matrix = None\<rparr>,
            CutShape \<lparr>cls = Rectangle_class, face = 2, firstLoop = 8, origin = 4, matrix = None\<rparr>]
       \<and> map fst res \<noteq> [CutValue (1 / 4), CutValue 1]"
    by (intro exI[of _ "[(CutShape \<lparr>cls = Rectangle_class, face = 1, firstLoop = 4, origin = 0, matrix = None\<rparr>, 0),
           (CutShape \<lparr>cls = Rectangle_class, face = 2, firstLoop = 8, origin = 4, matrix = None\<rparr>, 1)]"]
         exI[of _ ctx']) simp
  then show ?thesis by (simp add: two_cuts_def)
qed

text \<open>
  The triangle: the last section would use the vertex 0 twice, the kernel refuses the
  face, and \<^verbatim>\<open>split\<close> fails with the kernel's \<^verbatim>\<open>ValueError\<close>.
\<close>

theorem split_errors_witness:
  "split simple_kernel one_cut X () (Rectangle triangle 0) (session triangle) = Inl ValueError
   \<and> (\<exists>m vs. faces_new simple_kernel m vs = Inl ValueError)"
  using split_errors[OF triangle_split] triangle_split by simp

text \<open>
  Claim C6 as stated fails on the pentagon: the shape has five boundary vertices, and
  \<^verbatim>\<open>split\<close> returns a rectangle on the vertices 0, 1, 2 and 3.
\<close>

theorem split_errors_counterexample:
  "length (face_verts pentagon (face (Rectangle pentagon 0))) = 5
   \<and> (\<exists>ctx'. split simple_kernel one_cut X () (Rectangle pentagon 0) (session pentagon) =
         Inr ([(CutShape \<lparr>cls = Rectangle_class, face = 1, firstLoop = 5, origin = 0, matrix = None\<rparr>, 0)],
              ctx'))"
proof -
  have "length (face_verts pentagon (face (Rectangle pentagon 0))) = 5"
    by (simp add: Rectangle_def Shape2d_def pentagon_def polygon_mesh_def)
  with pentagon_split show ?thesis by blast
qed

end
